theory Spec2Isabelle
  imports Main "HOL-Library.AList"
begin

section \<open>Values, errors and outcomes\<close>

text \<open>
  The module \<open>ClearMap/Analysis/Graphs/GraphGt.py\<close> wraps a \<open>graph_tool\<close> graph.
  Exceptions of the Python code are values of \<open>error\<close>. A method that only reads returns
  \<open>error + 'r\<close>; a method that mutates the graph returns an \<open>outcome\<close>, which carries the
  state the object is left in, also when the method raises.
\<close>

datatype error =
  KeyError | ValueError | IndexError | AttributeError | TypeError
  | NotImplementedError | ConsistencyError

datatype ('r, 's) outcome = Return 'r 's | Raise error 's

text \<open>
  Numeric arrays are one- or two-dimensional: \<open>Arr1 xs\<close> has shape \<open>(length xs,)\<close> and
  \<open>Arr2 d rows\<close> has shape \<open>(length rows, d)\<close>. Index ranges are pairs of (unbounded)
  integers; the source stores them as \<open>int64\<close>, and an array never holds \<open>2^63\<close> samples.
\<close>

datatype 'a ndarray = Arr1 "'a list" | Arr2 nat "'a list list"

type_synonym ranges = "(int \<times> int) list"

text \<open>
  The Python values that the property tables hold and that the geometry methods take:
  \<open>None\<close>, a string, a shape tuple, an array, an \<open>(n, 2)\<close> integer array of index ranges,
  and a list of arrays (also the content of a vector-valued property map).
\<close>

datatype 'a pyval =
  PNone | PStr string | PShape "nat list" | PArray "'a ndarray"
  | PRanges ranges | PList "'a ndarray list"

section \<open>Array primitives (NumPy)\<close>

fun len :: "'a ndarray \<Rightarrow> nat" where
  "len (Arr1 xs) = length xs"
| "len (Arr2 d rows) = length rows"

text \<open>Python's \<open>xs[s:e]\<close>: a negative bound counts from the end, and both are clipped.\<close>

definition slice_bound :: "nat \<Rightarrow> int \<Rightarrow> nat" where
  "slice_bound n i = (if i < 0 then nat (max 0 (int n + i)) else min (nat i) n)"

definition py_slice :: "'b list \<Rightarrow> int \<Rightarrow> int \<Rightarrow> 'b list" where
  "py_slice xs s e =
     (let a = slice_bound (length xs) s; b = slice_bound (length xs) e
      in take (b - a) (drop a xs))"

fun arr_slice :: "'a ndarray \<Rightarrow> int \<times> int \<Rightarrow> 'a ndarray" where
  "arr_slice (Arr1 xs) (s, e) = Arr1 (py_slice xs s e)"
| "arr_slice (Arr2 d rows) (s, e) = Arr2 d (py_slice rows s e)"

text \<open>\<open>np.cumsum\<close>.\<close>

fun cumsum_from :: "int \<Rightarrow> int list \<Rightarrow> int list" where
  "cumsum_from acc [] = []"
| "cumsum_from acc (x # xs) = (acc + x) # cumsum_from (acc + x) xs"

definition cumsum :: "int list \<Rightarrow> int list" where
  "cumsum xs = cumsum_from 0 xs"

text \<open>
  The idiom that the source writes three times (lines 536-537, 609-610 and 636-637):
  \<open>indices = np.cumsum(lengths); np.array([np.hstack([0, indices[:-1]]), indices]).T\<close>.
  For an empty \<open>lengths\<close> the two rows have lengths 1 and 0 and \<open>np.array\<close> raises
  \<open>ValueError\<close> (NumPy 1.24 and later, and every version when \<open>dtype=int\<close> is given;
  an earlier NumPy builds a ragged object array, on which the next indexing fails).
\<close>

definition compute_ranges :: "int list \<Rightarrow> error + ranges" where
  "compute_ranges lengths =
     (let indices = cumsum lengths
      in if indices = [] then Inl ValueError
         else Inr (zip (0 # butlast indices) indices))"

text \<open>\<open>np.diff(indices, axis=1)[:, 0]\<close> on an \<open>(n, 2)\<close> array.\<close>

definition diff_ranges :: "ranges \<Rightarrow> int list" where
  "diff_ranges indices = map (\<lambda>(s, e). e - s) indices"

text \<open>
  \<open>np.vstack\<close>: every one-dimensional array of length \<open>l\<close> is first made a \<open>(1, l)\<close> array
  (\<open>np.atleast_2d\<close>), the row widths must agree, and the rows are concatenated. An empty
  list raises.
\<close>

fun atleast_2d :: "'a ndarray \<Rightarrow> nat \<times> 'a list list" where
  "atleast_2d (Arr1 xs) = (length xs, [xs])"
| "atleast_2d (Arr2 d rows) = (d, rows)"

definition vstack :: "'a ndarray list \<Rightarrow> error + 'a ndarray" where
  "vstack arrays =
     (case arrays of
        [] \<Rightarrow> Inl ValueError
      | a # rest \<Rightarrow>
          (let d = fst (atleast_2d a)
           in if list_all (\<lambda>b. fst (atleast_2d b) = d) rest
              then Inr (Arr2 d (concat (map (\<lambda>b. snd (atleast_2d b)) arrays)))
              else Inl ValueError))"

text \<open>\<open>a.reshape(-1, order='A')\<close> and \<open>a.reshape((-1, ndim), order='A')\<close>.\<close>

fun ravel :: "'a ndarray \<Rightarrow> 'a list" where
  "ravel (Arr1 xs) = xs"
| "ravel (Arr2 d rows) = concat rows"

fun chunks :: "nat \<Rightarrow> nat \<Rightarrow> 'b list \<Rightarrow> 'b list list" where
  "chunks 0 d xs = []"
| "chunks (Suc k) d xs = take d xs # chunks k d (drop d xs)"

definition reshape_rows :: "nat \<Rightarrow> 'a ndarray \<Rightarrow> error + 'a ndarray" where
  "reshape_rows d a =
     (let xs = ravel a
      in if d = 0 \<or> length xs mod d \<noteq> 0 then Inl ValueError
         else Inr (Arr2 d (chunks (length xs div d) d xs)))"

text \<open>\<open>np.zeros((n,) + prop.shape[1:], prop.dtype)\<close>; a negative \<open>n\<close> raises.\<close>

fun zeros_like_rows :: "int \<Rightarrow> 'a::zero ndarray \<Rightarrow> error + 'a ndarray" where
  "zeros_like_rows n (Arr1 xs) =
     (if n < 0 then Inl ValueError else Inr (Arr1 (replicate (nat n) 0)))"
| "zeros_like_rows n (Arr2 d rows) =
     (if n < 0 then Inl ValueError else Inr (Arr2 d (replicate (nat n) (replicate d 0))))"

section \<open>The graph and its property tables\<close>

text \<open>
  \<open>base_graph\<close> is the wrapped \<open>graph_tool\<close> graph (\<open>self._base\<close>): the vertices are
  \<open>0 ..< num_vertices\<close>, edge \<open>i\<close> is \<open>edge_list ! i\<close>, and \<open>vp\<close>, \<open>ep\<close>, \<open>gp\<close> are its vertex,
  edge and graph property dictionaries in insertion order (\<open>graph_tool\<close>'s own names for
  \<open>vertex_properties\<close>, \<open>edge_properties\<close> and \<open>graph_properties\<close>). The typed storage of a
  property map (\<open>dtype\<close>) is not modelled. \<open>graph\<close> is the \<open>Graph\<close> object of the module:
  the base and the three fields of the mesh cache.
\<close>

record 'a base_graph =
  num_vertices :: nat
  edge_list :: "(nat \<times> nat) list"
  is_directed :: bool
  vp :: "(string \<times> 'a pyval) list"
  ep :: "(string \<times> 'a pyval) list"
  gp :: "(string \<times> 'a pyval) list"

record ('a, 'm) graph =
  base :: "'a base_graph"
  mesh_vertices :: "'m option"
  mesh_faces :: "'m option"
  faces_edge_ids :: "'m option"

text \<open>
  The operations of \<open>graph_tool\<close> whose results no line of the module inspects are
  parameters, collected in a record: the structural edits of the base graph, the lookup of
  an edge descriptor, reading and writing one element of a property map, and the labelling
  of the connected components. An edge descriptor is the edge's index.
\<close>

record 'a engine =
  gt_add_vertex :: "'a base_graph \<Rightarrow> int \<Rightarrow> error + 'a base_graph"
  gt_vertex_add_missing :: "'a base_graph \<Rightarrow> int \<Rightarrow> error + 'a base_graph"
  gt_remove_vertex :: "'a base_graph \<Rightarrow> int \<Rightarrow> error + 'a base_graph"
  gt_add_edge :: "'a base_graph \<Rightarrow> nat \<Rightarrow> nat \<Rightarrow> error + 'a base_graph"
  gt_add_edge_list :: "'a base_graph \<Rightarrow> (nat \<times> nat) list \<Rightarrow> error + 'a base_graph"
  gt_remove_edge :: "'a base_graph \<Rightarrow> nat \<Rightarrow> error + 'a base_graph"
  gt_edge :: "'a base_graph \<Rightarrow> nat \<Rightarrow> nat \<Rightarrow> error + nat"
  gt_find_edge :: "'a base_graph \<Rightarrow> int \<Rightarrow> nat list"
  gt_getitem :: "'a pyval \<Rightarrow> nat \<Rightarrow> error + 'a pyval"
  gt_setitem :: "'a pyval \<Rightarrow> nat \<Rightarrow> 'a pyval \<Rightarrow> error + 'a pyval"
  gt_label_components :: "'a base_graph \<Rightarrow> nat list \<times> nat list"

datatype edge_spec = EdgeDesc nat | EdgeTuple nat nat | EdgeInt int | EdgeOther

datatype edge_arg = OneEdge nat nat | EdgeList "(nat \<times> nat) list"

subsection \<open>Caches and construction\<close>

definition invalidate_caches :: "('a, 'm) graph \<Rightarrow> ('a, 'm) graph" where
  "invalidate_caches g = g\<lparr>mesh_vertices := None, mesh_faces := None, faces_edge_ids := None\<rparr>"

text \<open>\<open>Graph(base=b)\<close>: the \<open>else\<close> branch of \<open>__init__\<close>.\<close>

definition Graph_of_base :: "'a base_graph \<Rightarrow> ('a, 'm) graph" where
  "Graph_of_base b =
     \<lparr>base = b, mesh_vertices = None, mesh_faces = None, faces_edge_ids = None\<rparr>"

text \<open>The setter of the \<open>base\<close> property.\<close>

definition set_base :: "('a, 'm) graph \<Rightarrow> 'a base_graph \<Rightarrow> ('a, 'm) graph" where
  "set_base g b = invalidate_caches (g\<lparr>base := b\<rparr>)"

subsection \<open>Vertices and edges\<close>

definition n_vertices :: "('a, 'm) graph \<Rightarrow> nat" where
  "n_vertices g = num_vertices (base g)"

definition n_edges :: "('a, 'm) graph \<Rightarrow> nat" where
  "n_edges g = length (edge_list (base g))"

definition add_vertex ::
  "'a engine \<Rightarrow> ('a, 'm) graph \<Rightarrow> int option \<Rightarrow> int option \<Rightarrow> (unit, ('a, 'm) graph) outcome" where
  "add_vertex E g n vertex =
     (case n of
        Some k \<Rightarrow>
          (case gt_add_vertex E (base g) k of
             Inl e \<Rightarrow> Raise e g
           | Inr b \<Rightarrow> Return () (invalidate_caches (g\<lparr>base := b\<rparr>)))
      | None \<Rightarrow>
          (case vertex of
             Some v \<Rightarrow>
               (case gt_vertex_add_missing E (base g) v of
                  Inl e \<Rightarrow> Raise e g
                | Inr b \<Rightarrow> Return () (invalidate_caches (g\<lparr>base := b\<rparr>)))
           | None \<Rightarrow> Raise ValueError g))"

definition remove_vertex ::
  "'a engine \<Rightarrow> ('a, 'm) graph \<Rightarrow> int \<Rightarrow> (unit, ('a, 'm) graph) outcome" where
  "remove_vertex E g vertex =
     (case gt_remove_vertex E (base g) vertex of
        Inl e \<Rightarrow> Raise e g
      | Inr b \<Rightarrow> Return () (invalidate_caches (g\<lparr>base := b\<rparr>)))"

definition edge :: "'a engine \<Rightarrow> ('a, 'm) graph \<Rightarrow> edge_spec \<Rightarrow> error + nat" where
  "edge E g spec =
     (case spec of
        EdgeDesc e \<Rightarrow> Inr e
      | EdgeTuple s t \<Rightarrow> gt_edge E (base g) s t
      | EdgeInt k \<Rightarrow>
          (case gt_find_edge E (base g) k of [] \<Rightarrow> Inl IndexError | e # _ \<Rightarrow> Inr e)
      | EdgeOther \<Rightarrow> Inl ValueError)"

definition add_edge ::
  "'a engine \<Rightarrow> ('a, 'm) graph \<Rightarrow> edge_arg \<Rightarrow> (unit, ('a, 'm) graph) outcome" where
  "add_edge E g arg =
     (case (case arg of
              OneEdge s t \<Rightarrow> gt_add_edge E (base g) s t
            | EdgeList es \<Rightarrow> gt_add_edge_list E (base g) es) of
        Inl e \<Rightarrow> Raise e g
      | Inr b \<Rightarrow> Return () (invalidate_caches (g\<lparr>base := b\<rparr>)))"

definition remove_edge ::
  "'a engine \<Rightarrow> ('a, 'm) graph \<Rightarrow> edge_spec \<Rightarrow> (unit, ('a, 'm) graph) outcome" where
  "remove_edge E g spec =
     (case edge E g spec of
        Inl e \<Rightarrow> Raise e g
      | Inr i \<Rightarrow>
          (case gt_remove_edge E (base g) i of
             Inl e \<Rightarrow> Raise e g
           | Inr b \<Rightarrow> Return () (invalidate_caches (g\<lparr>base := b\<rparr>))))"

text \<open>
  \<open>edge_connectivity\<close> (\<open>get_edges()[:, :2]\<close>) lists the edges in index order, and
  \<open>vertex_edges_iterator\<close> (\<open>vertex(v).out_edges()\<close>) gives the indices of the edges that
  leave \<open>v\<close>: in an undirected graph, every edge that touches \<open>v\<close>.
\<close>

definition edge_connectivity :: "('a, 'm) graph \<Rightarrow> (nat \<times> nat) list" where
  "edge_connectivity g = edge_list (base g)"

definition vertex_edges_iterator :: "('a, 'm) graph \<Rightarrow> nat \<Rightarrow> nat list" where
  "vertex_edges_iterator g v =
     filter (\<lambda>i. fst (edge_list (base g) ! i) = v
                \<or> (\<not> is_directed (base g) \<and> snd (edge_list (base g) ! i) = v))
       [0 ..< length (edge_list (base g))]"

subsection \<open>Property store\<close>

text \<open>
  A property dictionary is an association list: \<open>d[k]\<close> is \<open>map_of d k\<close> and raises
  \<open>KeyError\<close> when absent, \<open>d[k] = v\<close> is \<open>AList.update\<close>, \<open>del d[k]\<close> is \<open>AList.delete\<close>,
  \<open>d.keys()\<close> is \<open>map fst d\<close>.
\<close>

definition lookup :: "(string \<times> 'v) list \<Rightarrow> string \<Rightarrow> error + 'v" where
  "lookup d k = (case map_of d k of None \<Rightarrow> Inl KeyError | Some v \<Rightarrow> Inr v)"

text \<open>
  Modelled from the spec: the conversions of \<open>ClearMap.Analysis.Graphs.type_conversions\<close>
  between Python values and property maps (\<open>vertex_property_map_from_python\<close>,
  \<open>edge_property_map_from_python\<close>, \<open>set_vertex_property_map\<close>, \<open>set_edge_property_map\<close>,
  \<open>vertex_property_map_to_python\<close>, \<open>edge_property_map_to_python\<close>) are not in the source
  file. A property map holds the array it was given (spec 3: an attribute table maps a
  name to an array keyed positionally by vertex or edge id), so each conversion hands the
  value over unchanged.
\<close>

definition property_map_from_python :: "'a pyval \<Rightarrow> 'a pyval" where
  "property_map_from_python source = source"

definition set_property_map :: "'a pyval \<Rightarrow> 'a pyval \<Rightarrow> 'a pyval" where
  "set_property_map p source = source"

definition property_map_to_python :: "'a pyval \<Rightarrow> 'a pyval" where
  "property_map_to_python p = p"

definition vertex_properties :: "('a, 'm) graph \<Rightarrow> string list" where
  "vertex_properties g = map fst (vp (base g))"

definition add_vertex_property ::
  "('a, 'm) graph \<Rightarrow> string \<Rightarrow> 'a pyval \<Rightarrow> (unit, ('a, 'm) graph) outcome" where
  "add_vertex_property g name source =
     (let v_prop = property_map_from_python source
      in Return () (g\<lparr>base := (base g)\<lparr>vp := AList.update name v_prop (vp (base g))\<rparr>\<rparr>))"

definition set_vertex_property ::
  "'a engine \<Rightarrow> ('a, 'm) graph \<Rightarrow> string \<Rightarrow> 'a pyval \<Rightarrow> nat option
     \<Rightarrow> (unit, ('a, 'm) graph) outcome" where
  "set_vertex_property E g name source vertex =
     (case map_of (vp (base g)) name of
        None \<Rightarrow> Raise ValueError g
      | Some v_prop \<Rightarrow>
          (case vertex of
             Some v \<Rightarrow>
               (case gt_setitem E v_prop v source of
                  Inl e \<Rightarrow> Raise e g
                | Inr p \<Rightarrow>
                    Return () (g\<lparr>base := (base g)\<lparr>vp := AList.update name p (vp (base g))\<rparr>\<rparr>))
           | None \<Rightarrow>
               Return () (g\<lparr>base := (base g)
                 \<lparr>vp := AList.update name (set_property_map v_prop source) (vp (base g))\<rparr>\<rparr>)))"

definition define_vertex_property ::
  "'a engine \<Rightarrow> ('a, 'm) graph \<Rightarrow> string \<Rightarrow> 'a pyval \<Rightarrow> nat option
     \<Rightarrow> (unit, ('a, 'm) graph) outcome" where
  "define_vertex_property E g name source vertex =
     (if name \<in> set (vertex_properties g) then set_vertex_property E g name source vertex
      else if vertex = None then add_vertex_property g name source
      else (case add_vertex_property g name PNone of
              Raise e g' \<Rightarrow> Raise e g'
            | Return _ g' \<Rightarrow> set_vertex_property E g' name source vertex))"

definition remove_vertex_property ::
  "('a, 'm) graph \<Rightarrow> string \<Rightarrow> (unit, ('a, 'm) graph) outcome" where
  "remove_vertex_property g name =
     (if name \<notin> set (vertex_properties g) then Raise ValueError g
      else Return () (invalidate_caches
             (g\<lparr>base := (base g)\<lparr>vp := AList.delete name (vp (base g))\<rparr>\<rparr>)))"

definition edge_property ::
  "'a engine \<Rightarrow> ('a, 'm) graph \<Rightarrow> string \<Rightarrow> edge_spec option \<Rightarrow> error + 'a pyval" where
  "edge_property E g name e =
     (case lookup (ep (base g)) name of
        Inl err \<Rightarrow> Inl err
      | Inr e_prop \<Rightarrow>
          (case e of
             Some spec \<Rightarrow>
               (case edge E g spec of Inl err \<Rightarrow> Inl err | Inr i \<Rightarrow> gt_getitem E e_prop i)
           | None \<Rightarrow> Inr (property_map_to_python e_prop)))"

definition edge_properties :: "('a, 'm) graph \<Rightarrow> string list" where
  "edge_properties g = map fst (ep (base g))"

definition add_edge_property ::
  "('a, 'm) graph \<Rightarrow> string \<Rightarrow> 'a pyval \<Rightarrow> (unit, ('a, 'm) graph) outcome" where
  "add_edge_property g name source =
     (let p = property_map_from_python source
      in Return () (invalidate_caches
           (g\<lparr>base := (base g)\<lparr>ep := AList.update name p (ep (base g))\<rparr>\<rparr>)))"

definition set_edge_property ::
  "'a engine \<Rightarrow> ('a, 'm) graph \<Rightarrow> string \<Rightarrow> 'a pyval \<Rightarrow> edge_spec option
     \<Rightarrow> (unit, ('a, 'm) graph) outcome" where
  "set_edge_property E g name source e =
     (case map_of (ep (base g)) name of
        None \<Rightarrow> Raise ValueError g
      | Some p \<Rightarrow>
          (case e of
             Some spec \<Rightarrow>
               (case edge E g spec of
                  Inl err \<Rightarrow> Raise err g
                | Inr i \<Rightarrow>
                    (case gt_setitem E p i source of
                       Inl err \<Rightarrow> Raise err g
                     | Inr p' \<Rightarrow>
                         Return () (invalidate_caches
                           (g\<lparr>base := (base g)\<lparr>ep := AList.update name p' (ep (base g))\<rparr>\<rparr>))))
           | None \<Rightarrow>
               Return () (invalidate_caches
                 (g\<lparr>base := (base g)
                   \<lparr>ep := AList.update name (set_property_map p source) (ep (base g))\<rparr>\<rparr>))))"

definition define_edge_property ::
  "'a engine \<Rightarrow> ('a, 'm) graph \<Rightarrow> string \<Rightarrow> 'a pyval \<Rightarrow> edge_spec option
     \<Rightarrow> (unit, ('a, 'm) graph) outcome" where
  "define_edge_property E g name source e =
     (if name \<in> set (edge_properties g) then set_edge_property E g name source e
      else if e = None then add_edge_property g name source
      else (case add_edge_property g name PNone of
              Raise err g' \<Rightarrow> Raise err g'
            | Return _ g' \<Rightarrow> set_edge_property E g' name source e))"

definition remove_edge_property ::
  "('a, 'm) graph \<Rightarrow> string \<Rightarrow> (unit, ('a, 'm) graph) outcome" where
  "remove_edge_property g name =
     (if name \<notin> set (edge_properties g) then Raise ValueError g
      else Return () (invalidate_caches
             (g\<lparr>base := (base g)\<lparr>ep := AList.delete name (ep (base g))\<rparr>\<rparr>)))"

definition graph_property :: "('a, 'm) graph \<Rightarrow> string \<Rightarrow> error + 'a pyval" where
  "graph_property g name = lookup (gp (base g)) name"

definition graph_properties :: "('a, 'm) graph \<Rightarrow> string list" where
  "graph_properties g = map fst (gp (base g))"

definition add_graph_property ::
  "('a, 'm) graph \<Rightarrow> string \<Rightarrow> 'a pyval \<Rightarrow> (unit, ('a, 'm) graph) outcome" where
  "add_graph_property g name source =
     Return () (invalidate_caches
       (g\<lparr>base := (base g)\<lparr>gp := AList.update name source (gp (base g))\<rparr>\<rparr>))"

definition set_graph_property ::
  "('a, 'm) graph \<Rightarrow> string \<Rightarrow> 'a pyval \<Rightarrow> (unit, ('a, 'm) graph) outcome" where
  "set_graph_property g name source =
     (if name \<notin> set (graph_properties g) then Raise ValueError g
      else if source \<noteq> PNone
        then Return () (invalidate_caches
               (g\<lparr>base := (base g)\<lparr>gp := AList.update name source (gp (base g))\<rparr>\<rparr>))
        else Return () (invalidate_caches g))"

definition define_graph_property ::
  "('a, 'm) graph \<Rightarrow> string \<Rightarrow> 'a pyval \<Rightarrow> (unit, ('a, 'm) graph) outcome" where
  "define_graph_property g name source =
     (if name \<in> set (graph_properties g) then set_graph_property g name source
      else add_graph_property g name source)"

definition remove_graph_property ::
  "('a, 'm) graph \<Rightarrow> string \<Rightarrow> (unit, ('a, 'm) graph) outcome" where
  "remove_graph_property g name =
     (if name \<notin> set (graph_properties g) then Raise ValueError g
      else Return () (invalidate_caches
             (g\<lparr>base := (base g)\<lparr>gp := AList.delete name (gp (base g))\<rparr>\<rparr>)))"

text \<open>\<open>shape\<close> and \<open>ndim\<close> (\<open>DEFAULT_N_DIMS = 3\<close>).\<close>

definition shape :: "('a, 'm) graph \<Rightarrow> error + 'a pyval" where
  "shape g = graph_property g ''shape''"

definition ndim :: "('a, 'm) graph \<Rightarrow> error + nat" where
  "ndim g =
     (case shape g of
        Inl e \<Rightarrow> Inl e
      | Inr PNone \<Rightarrow> Inr 3
      | Inr (PShape s) \<Rightarrow> Inr (length s)
      | Inr (PStr s) \<Rightarrow> Inr (length s)
      | Inr (PArray a) \<Rightarrow> Inr (len a)
      | Inr (PRanges r) \<Rightarrow> Inr (length r)
      | Inr (PList l) \<Rightarrow> Inr (length l))"

section \<open>Edge geometry\<close>

subsection \<open>Names and mode\<close>

definition edge_geometry_type :: "('a, 'm) graph \<Rightarrow> error + 'a pyval" where
  "edge_geometry_type g = graph_property g ''edge_geometry_type''"

text \<open>\<open>edge_geometry_property_name\<close> with its default prefix \<open>'edge_geometry'\<close>.\<close>

definition edge_geometry_property_name :: "string \<Rightarrow> string" where
  "edge_geometry_property_name name = ''edge_geometry'' @ ''_'' @ name"

definition startswith :: "string \<Rightarrow> string \<Rightarrow> bool" where
  "startswith p prefix = (take (length prefix) p = prefix)"

definition edge_geometry_property_names :: "('a, 'm) graph \<Rightarrow> error + string list" where
  "edge_geometry_property_names g =
     (let prefix = edge_geometry_property_name []
      in case edge_geometry_type g of
           Inl e \<Rightarrow> Inl e
         | Inr t \<Rightarrow>
             (let properties = (if t = PStr ''graph'' then graph_properties g
                                else edge_properties g)
              in Inr (filter (\<lambda>p. startswith p prefix \<and> p \<noteq> ''edge_geometry_type'')
                        properties)))"

definition edge_geometry_properties :: "('a, 'm) graph \<Rightarrow> error + string list" where
  "edge_geometry_properties g =
     (let prefix_len = length (edge_geometry_property_name [])
      in case edge_geometry_property_names g of
           Inl e \<Rightarrow> Inl e
         | Inr names \<Rightarrow> Inr (map (drop prefix_len) names))"

definition has_edge_geometry :: "('a, 'm) graph \<Rightarrow> string \<Rightarrow> error + bool" where
  "has_edge_geometry g name =
     (case edge_geometry_property_names g of
        Inl e \<Rightarrow> Inl e
      | Inr names \<Rightarrow> Inr (edge_geometry_property_name name \<in> set names))"

subsection \<open>Reading Python values as arrays\<close>

text \<open>
  \<open>for s, e in indices\<close> and \<open>np.diff(indices, axis=1)\<close> need an \<open>(n, 2)\<close> integer array,
  \<open>for v in values\<close> a sequence of arrays, \<open>start, end = ...\<close> one index pair, and
  \<open>values[start:end]\<close> a sliceable value. The values that the module never passes there
  (a string, a tuple, \<open>None\<close>) are rejected with \<open>TypeError\<close>.
\<close>

definition as_ranges :: "'a pyval \<Rightarrow> error + ranges" where
  "as_ranges v = (case v of PRanges r \<Rightarrow> Inr r | _ \<Rightarrow> Inl TypeError)"

definition as_range :: "'a pyval \<Rightarrow> error + int \<times> int" where
  "as_range v = (case v of PRanges [r] \<Rightarrow> Inr r | _ \<Rightarrow> Inl TypeError)"

definition iter_arrays :: "'a pyval \<Rightarrow> error + 'a ndarray list" where
  "iter_arrays v =
     (case v of
        PList as \<Rightarrow> Inr as
      | PArray (Arr2 d rows) \<Rightarrow> Inr (map Arr1 rows)
      | PArray (Arr1 xs) \<Rightarrow> Inr (map (\<lambda>x. Arr1 [x]) xs)
      | _ \<Rightarrow> Inl TypeError)"

definition pyval_slice :: "'a pyval \<Rightarrow> int \<times> int \<Rightarrow> error + 'a ndarray" where
  "pyval_slice v r = (case v of PArray a \<Rightarrow> Inr (arr_slice a r) | _ \<Rightarrow> Inl TypeError)"

fun map_result :: "('b \<Rightarrow> error + 'c) \<Rightarrow> 'b list \<Rightarrow> error + 'c list" where
  "map_result f [] = Inr []"
| "map_result f (x # xs) =
     (case f x of
        Inl e \<Rightarrow> Inl e
      | Inr y \<Rightarrow> (case map_result f xs of Inl e \<Rightarrow> Inl e | Inr ys \<Rightarrow> Inr (y # ys)))"

subsection \<open>Packed mode (\<open>'graph'\<close>): one array per attribute and per-edge index ranges\<close>

definition edge_geometry_indices_name_graph :: string where
  "edge_geometry_indices_name_graph = edge_geometry_property_name ''indices''"

definition edge_geometry_indices_graph ::
  "'a engine \<Rightarrow> ('a, 'm) graph \<Rightarrow> edge_spec option \<Rightarrow> error + 'a pyval" where
  "edge_geometry_indices_graph E g e = edge_property E g edge_geometry_indices_name_graph e"

definition set_edge_geometry_indices_graph ::
  "'a engine \<Rightarrow> ('a, 'm) graph \<Rightarrow> 'a pyval \<Rightarrow> edge_spec option
     \<Rightarrow> (unit, ('a, 'm) graph) outcome" where
  "set_edge_geometry_indices_graph E g indices e =
     set_edge_property E g edge_geometry_indices_name_graph indices e"

text \<open>
  \<open>_edge_geometry_graph\<close> returns \<open>values\<close> or \<open>(values, indices)\<close>: the model returns the
  pair, with \<open>None\<close> for the indices when \<open>return_indices\<close> is false.
\<close>

definition edge_geometry_graph ::
  "'a engine \<Rightarrow> ('a, 'm) graph \<Rightarrow> string \<Rightarrow> edge_spec option \<Rightarrow> bool \<Rightarrow> bool
     \<Rightarrow> error + 'a pyval \<times> 'a pyval option" where
  "edge_geometry_graph E g name e return_indices as_list =
     (let name' = edge_geometry_property_name name
      in case e of
           None \<Rightarrow>
             (case graph_property g name' of
                Inl err \<Rightarrow> Inl err
              | Inr values \<Rightarrow>
                  if return_indices \<or> as_list then
                    (case edge_geometry_indices_graph E g None of
                       Inl err \<Rightarrow> Inl err
                     | Inr indices \<Rightarrow>
                         (case (if as_list
                                then (case as_ranges indices of
                                        Inl err \<Rightarrow> Inl err
                                      | Inr rs \<Rightarrow>
                                          (case map_result (pyval_slice values) rs of
                                             Inl err \<Rightarrow> Inl err
                                           | Inr vs \<Rightarrow> Inr (PList vs)))
                                else Inr values) of
                            Inl err \<Rightarrow> Inl err
                          | Inr values' \<Rightarrow>
                              Inr (values', if return_indices then Some indices else None)))
                  else Inr (values, None))
         | Some spec \<Rightarrow>
             (case edge_geometry_indices_graph E g (Some spec) of
                Inl err \<Rightarrow> Inl err
              | Inr i \<Rightarrow>
                  (case as_range i of
                     Inl err \<Rightarrow> Inl err
                   | Inr r \<Rightarrow>
                       (case graph_property g name' of
                          Inl err \<Rightarrow> Inl err
                        | Inr values \<Rightarrow>
                            (case pyval_slice values r of
                               Inl err \<Rightarrow> Inl err
                             | Inr a \<Rightarrow> Inr (PArray a, None))))))"

definition set_edge_geometry_graph ::
  "'a engine \<Rightarrow> ('a, 'm) graph \<Rightarrow> string \<Rightarrow> 'a pyval \<Rightarrow> 'a pyval option \<Rightarrow> edge_spec option
     \<Rightarrow> (unit, ('a, 'm) graph) outcome" where
  "set_edge_geometry_graph E g name values indices e =
     (if e \<noteq> None then Raise NotImplementedError g
      else
        case (case values of
                PList vs \<Rightarrow>
                  (case (case indices of
                           None \<Rightarrow>
                             (case compute_ranges (map (\<lambda>v. int (len v)) vs) of
                                Inl err \<Rightarrow> Inl err
                              | Inr r \<Rightarrow> Inr (Some (PRanges r)))
                         | Some i \<Rightarrow> Inr (Some i)) of
                     Inl err \<Rightarrow> Inl err
                   | Inr indices' \<Rightarrow>
                       (case vstack vs of
                          Inl err \<Rightarrow> Inl err
                        | Inr a \<Rightarrow> Inr (PArray a, indices')))
              | _ \<Rightarrow> Inr (values, indices)) of
          Inl err \<Rightarrow> Raise err g
        | Inr (values', indices') \<Rightarrow>
            (case (case indices' of
                     None \<Rightarrow> Return () g
                   | Some i \<Rightarrow> define_edge_property E g edge_geometry_indices_name_graph i None) of
               Raise err g' \<Rightarrow> Raise err g'
             | Return _ g' \<Rightarrow>
                 define_graph_property g' (edge_geometry_property_name name) values'))"

definition remove_edge_geometry_graph ::
  "('a, 'm) graph \<Rightarrow> string \<Rightarrow> (unit, ('a, 'm) graph) outcome" where
  "remove_edge_geometry_graph g name =
     (let name' = edge_geometry_property_name name
      in if name' \<in> set (graph_properties g) then remove_graph_property g name'
         else Return () g)"

definition remove_edge_geometry_indices_graph ::
  "('a, 'm) graph \<Rightarrow> (unit, ('a, 'm) graph) outcome" where
  "remove_edge_geometry_indices_graph g =
     (let name = edge_geometry_indices_name_graph
      in if name \<in> set (edge_properties g) then remove_edge_property g name
         else Return () g)"

subsection \<open>Scattered mode (\<open>'edge'\<close>): one variable-length array per edge\<close>

definition edge_geometry_scalar_edge ::
  "'a engine \<Rightarrow> ('a, 'm) graph \<Rightarrow> string \<Rightarrow> edge_spec option \<Rightarrow> error + 'a pyval" where
  "edge_geometry_scalar_edge E g name e =
     edge_property E g (edge_geometry_property_name name) e"

definition edge_geometry_vector_edge ::
  "'a engine \<Rightarrow> ('a, 'm) graph \<Rightarrow> string \<Rightarrow> edge_spec option \<Rightarrow> bool \<Rightarrow> nat option \<Rightarrow> bool
     \<Rightarrow> error + 'a pyval" where
  "edge_geometry_vector_edge E g name e reshape nd as_list =
     (case edge_property E g (edge_geometry_property_name name) e of
        Inl err \<Rightarrow> Inl err
      | Inr geometry \<Rightarrow>
          if reshape then
            (case (case nd of None \<Rightarrow> ndim g | Some d \<Rightarrow> Inr d) of
               Inl err \<Rightarrow> Inl err
             | Inr d \<Rightarrow>
                 if e = None then
                   (case iter_arrays geometry of
                      Inl err \<Rightarrow> Inl err
                    | Inr gs \<Rightarrow>
                        (case map_result (reshape_rows d) gs of
                           Inl err \<Rightarrow> Inl err
                         | Inr gs' \<Rightarrow>
                             if as_list then Inr (PList gs')
                             else (case vstack gs' of
                                     Inl err \<Rightarrow> Inl err
                                   | Inr a \<Rightarrow> Inr (PArray a))))
                 else
                   (case geometry of
                      PArray a \<Rightarrow>
                        (case reshape_rows d a of
                           Inl err \<Rightarrow> Inl err
                         | Inr a' \<Rightarrow> Inr (PArray a'))
                    | _ \<Rightarrow> Inl AttributeError))
          else Inr geometry)"

text \<open>
  The methods \<open>edge_geometry\<close>, \<open>_edge_geometry_edge\<close>, \<open>_edge_geometry_indices_edge\<close> and
  \<open>edge_geometry_lengths\<close> call each other in a cycle that ends at the call
  \<open>self.edge_geometry(name)\<close> of \<open>edge_geometry_lengths\<close>, which asks for no indices.
  \<open>edge_geometry_edge_values\<close> is \<open>_edge_geometry_edge\<close> up to its test of
  \<open>return_indices\<close>.
\<close>

definition edge_geometry_edge_values ::
  "'a engine \<Rightarrow> ('a, 'm) graph \<Rightarrow> string \<Rightarrow> edge_spec option \<Rightarrow> bool \<Rightarrow> nat option \<Rightarrow> bool
     \<Rightarrow> error + 'a pyval" where
  "edge_geometry_edge_values E g name e reshape nd as_list =
     (if name \<in> set [''coordinates'', ''mesh'']
      then edge_geometry_vector_edge E g name e reshape nd as_list
      else edge_geometry_scalar_edge E g name e)"

definition edge_geometry_lengths ::
  "'a engine \<Rightarrow> ('a, 'm) graph \<Rightarrow> string \<Rightarrow> error + int list" where
  "edge_geometry_lengths E g name =
     (case edge_geometry_type g of
        Inl err \<Rightarrow> Inl err
      | Inr t \<Rightarrow>
          if t = PStr ''graph'' then
            (case edge_geometry_indices_graph E g None of
               Inl err \<Rightarrow> Inl err
             | Inr indices \<Rightarrow>
                 (case as_ranges indices of
                    Inl err \<Rightarrow> Inl err
                  | Inr rs \<Rightarrow> Inr (diff_ranges rs)))
          else
            (case edge_geometry_edge_values E g name None True None True of
               Inl err \<Rightarrow> Inl err
             | Inr values \<Rightarrow>
                 (case values of
                    PList vs \<Rightarrow> Inr (map (\<lambda>v. int (len v)) vs)
                  | PArray (Arr2 d rows) \<Rightarrow> Inr (map (\<lambda>v. int (length v)) rows)
                  | _ \<Rightarrow> Inl TypeError)))"

definition edge_geometry_indices_edge ::
  "'a engine \<Rightarrow> ('a, 'm) graph \<Rightarrow> error + 'a pyval" where
  "edge_geometry_indices_edge E g =
     (case edge_geometry_lengths E g ''coordinates'' of
        Inl err \<Rightarrow> Inl err
      | Inr lengths \<Rightarrow>
          (case compute_ranges lengths of
             Inl err \<Rightarrow> Inl err
           | Inr indices \<Rightarrow> Inr (PRanges indices)))"

definition edge_geometry_edge ::
  "'a engine \<Rightarrow> ('a, 'm) graph \<Rightarrow> string \<Rightarrow> edge_spec option \<Rightarrow> bool \<Rightarrow> nat option \<Rightarrow> bool
     \<Rightarrow> bool \<Rightarrow> error + 'a pyval \<times> 'a pyval option" where
  "edge_geometry_edge E g name e reshape nd as_list return_indices =
     (case edge_geometry_edge_values E g name e reshape nd as_list of
        Inl err \<Rightarrow> Inl err
      | Inr edge_geometry \<Rightarrow>
          if return_indices then
            (case edge_geometry_indices_edge E g of
               Inl err \<Rightarrow> Inl err
             | Inr indices \<Rightarrow> Inr (edge_geometry, Some indices))
          else Inr (edge_geometry, None))"

definition set_edge_geometry_scalar_edge ::
  "'a engine \<Rightarrow> ('a, 'm) graph \<Rightarrow> string \<Rightarrow> 'a pyval \<Rightarrow> edge_spec option
     \<Rightarrow> (unit, ('a, 'm) graph) outcome" where
  "set_edge_geometry_scalar_edge E g name scalars e =
     define_edge_property E g (edge_geometry_property_name name) scalars e"

definition set_edge_geometry_vector_edge ::
  "'a engine \<Rightarrow> ('a, 'm) graph \<Rightarrow> string \<Rightarrow> 'a pyval \<Rightarrow> 'a pyval option \<Rightarrow> edge_spec option
     \<Rightarrow> (unit, ('a, 'm) graph) outcome" where
  "set_edge_geometry_vector_edge E g name vectors indices e =
     (case (if e = None then
              (case indices of
                 None \<Rightarrow>
                   (case iter_arrays vectors of
                      Inl err \<Rightarrow> Inl err
                    | Inr vs \<Rightarrow> Inr (PList (map (\<lambda>v. Arr1 (ravel v)) vs)))
               | Some i \<Rightarrow>
                   (case as_ranges i of
                      Inl err \<Rightarrow> Inl err
                    | Inr rs \<Rightarrow>
                        (case map_result (pyval_slice vectors) rs of
                           Inl err \<Rightarrow> Inl err
                         | Inr vs \<Rightarrow> Inr (PList (map (\<lambda>v. Arr1 (ravel v)) vs)))))
            else Inr vectors) of
        Inl err \<Rightarrow> Raise err g
      | Inr vectors' \<Rightarrow>
          define_edge_property E g (edge_geometry_property_name name) vectors' e)"

definition set_edge_geometry_edge ::
  "'a engine \<Rightarrow> ('a, 'm) graph \<Rightarrow> string \<Rightarrow> 'a pyval \<Rightarrow> 'a pyval option \<Rightarrow> edge_spec option
     \<Rightarrow> (unit, ('a, 'm) graph) outcome" where
  "set_edge_geometry_edge E g name values indices e =
     (if name \<in> set [''coordinates'', ''mesh'']
      then set_edge_geometry_vector_edge E g name values indices e
      else if name \<in> set [''radii'']
      then set_edge_geometry_scalar_edge E g name values e
      else set_edge_geometry_scalar_edge E g name values e)"

definition remove_edge_geometry_edge ::
  "('a, 'm) graph \<Rightarrow> string \<Rightarrow> (unit, ('a, 'm) graph) outcome" where
  "remove_edge_geometry_edge g name =
     remove_edge_property g (edge_geometry_property_name name)"

subsection \<open>Both modes\<close>

definition edge_geometry ::
  "'a engine \<Rightarrow> ('a, 'm) graph \<Rightarrow> string \<Rightarrow> edge_spec option \<Rightarrow> bool \<Rightarrow> bool \<Rightarrow> bool
     \<Rightarrow> nat option \<Rightarrow> error + 'a pyval \<times> 'a pyval option" where
  "edge_geometry E g name e as_list return_indices reshape nd =
     (case edge_geometry_type g of
        Inl err \<Rightarrow> Inl err
      | Inr t \<Rightarrow>
          if t = PStr ''graph''
          then edge_geometry_graph E g name e return_indices as_list
          else edge_geometry_edge E g name e reshape nd as_list return_indices)"

definition set_edge_geometry ::
  "'a engine \<Rightarrow> ('a, 'm) graph \<Rightarrow> string \<Rightarrow> 'a pyval \<Rightarrow> 'a pyval option \<Rightarrow> edge_spec option
     \<Rightarrow> (unit, ('a, 'm) graph) outcome" where
  "set_edge_geometry E g name values indices e =
     (case edge_geometry_type g of
        Inl err \<Rightarrow> Raise err g
      | Inr t \<Rightarrow>
          if t = PStr ''graph''
          then set_edge_geometry_graph E g name values indices e
          else set_edge_geometry_edge E g name values indices e)"

definition edge_geometry_indices ::
  "'a engine \<Rightarrow> ('a, 'm) graph \<Rightarrow> error + 'a pyval" where
  "edge_geometry_indices E g =
     (case edge_geometry_type g of
        Inl err \<Rightarrow> Inl err
      | Inr t \<Rightarrow>
          if t = PStr ''graph'' then edge_geometry_indices_graph E g None
          else edge_geometry_indices_edge E g)"

subsection \<open>Range remapping and resizing\<close>

text \<open>
  Modelled from the spec: \<open>remap_array_ranges\<close> of \<open>ClearMap.Utils.array_utils\<close> is not in
  the source file. Spec 4.2: for each \<open>i\<close> it copies \<open>old_array[old[i].start : old[i].end]\<close>
  into \<open>new_array[new[i].start : new[i].end]\<close>; the two lengths must be equal for every
  \<open>i\<close>, a violation is a \<open>ConsistencyError\<close>, and (spec 7) the lengths are validated before
  any write to the new array. An array is given by the list of its items along the first
  axis; the outcome carries the destination array, which is also the value returned.
\<close>

definition range_lengths_agree :: "ranges \<Rightarrow> ranges \<Rightarrow> bool" where
  "range_lengths_agree old new =
     list_all (\<lambda>((s, e), (s', e')). e - s = e' - s') (zip old new)"

definition assign_slice :: "'b list \<Rightarrow> int \<times> int \<Rightarrow> 'b list \<Rightarrow> error + 'b list" where
  "assign_slice dst r v =
     (let a = slice_bound (length dst) (fst r); b = slice_bound (length dst) (snd r)
      in if length v = b - a then Inr (take a dst @ v @ drop (a + length v) dst)
         else Inl ConsistencyError)"

fun copy_ranges ::
  "'b list \<Rightarrow> 'b list \<Rightarrow> ((int \<times> int) \<times> (int \<times> int)) list \<Rightarrow> (unit, 'b list) outcome" where
  "copy_ranges src dst [] = Return () dst"
| "copy_ranges src dst ((old, new) # rs) =
     (case assign_slice dst new (py_slice src (fst old) (snd old)) of
        Inl e \<Rightarrow> Raise e dst
      | Inr dst' \<Rightarrow> copy_ranges src dst' rs)"

definition remap_array_ranges ::
  "'b list \<Rightarrow> 'b list \<Rightarrow> ranges \<Rightarrow> ranges \<Rightarrow> (unit, 'b list) outcome" where
  "remap_array_ranges source destination source_ranges dest_ranges =
     (if range_lengths_agree source_ranges dest_ranges
      then copy_ranges source destination (zip source_ranges dest_ranges)
      else Raise ConsistencyError destination)"

text \<open>
  The body of the loop of \<open>_reduce_edge_geometry_properties\<close> on one property value:
  \<open>np.zeros((n,) + prop.shape[1:], prop.dtype)\<close>, then the remap. A value that is no array
  has no \<open>shape\<close>.
\<close>

definition remap_items ::
  "int \<Rightarrow> 'b \<Rightarrow> 'b list \<Rightarrow> ranges \<Rightarrow> ranges \<Rightarrow> error + 'b list" where
  "remap_items n z items indices indices_new =
     (if n < 0 then Inl ValueError
      else case remap_array_ranges items (replicate (nat n) z) indices indices_new of
             Raise e dst \<Rightarrow> Inl e
           | Return u dst \<Rightarrow> Inr dst)"

definition remap_property ::
  "int \<Rightarrow> ranges \<Rightarrow> ranges \<Rightarrow> 'a::zero pyval \<Rightarrow> error + 'a pyval" where
  "remap_property n indices indices_new prop =
     (case prop of
        PArray (Arr1 xs) \<Rightarrow>
          (case remap_items n 0 xs indices indices_new of
             Inl e \<Rightarrow> Inl e
           | Inr ys \<Rightarrow> Inr (PArray (Arr1 ys)))
      | PArray (Arr2 d rows) \<Rightarrow>
          (case remap_items n (replicate d 0) rows indices indices_new of
             Inl e \<Rightarrow> Inl e
           | Inr rows' \<Rightarrow> Inr (PArray (Arr2 d rows')))
      | PRanges rs \<Rightarrow>
          (case remap_items n (0, 0) rs indices indices_new of
             Inl e \<Rightarrow> Inl e
           | Inr rs' \<Rightarrow> Inr (PRanges rs'))
      | _ \<Rightarrow> Inl AttributeError)"

fun reduce_loop ::
  "int \<Rightarrow> ranges \<Rightarrow> ranges \<Rightarrow> string list \<Rightarrow> ('a::zero, 'm) graph
     \<Rightarrow> (unit, ('a, 'm) graph) outcome" where
  "reduce_loop n indices indices_new [] g = Return () g"
| "reduce_loop n indices indices_new (prop_name # names) g =
     (case graph_property g prop_name of
        Inl e \<Rightarrow> Raise e g
      | Inr prop \<Rightarrow>
          (case remap_property n indices indices_new prop of
             Inl e \<Rightarrow> Raise e g
           | Inr prop_new \<Rightarrow>
               (case set_graph_property g prop_name prop_new of
                  Raise e g' \<Rightarrow> Raise e g'
                | Return u g' \<Rightarrow> reduce_loop n indices indices_new names g')))"

definition reduce_edge_geometry_properties ::
  "('a::zero, 'm) graph \<Rightarrow> ranges \<Rightarrow> ranges \<Rightarrow> (unit, ('a, 'm) graph) outcome" where
  "reduce_edge_geometry_properties g indices indices_new =
     (if indices_new = [] then Raise IndexError g
      else
        let n = snd (last indices_new)
        in case edge_geometry_property_names g of
             Inl e \<Rightarrow> Raise e g
           | Inr names \<Rightarrow> reduce_loop n indices indices_new names g)"

text \<open>Lines 635-637 of \<open>resize_edge_geometry\<close>: the compacted ranges.\<close>

definition resize_indices :: "ranges \<Rightarrow> error + ranges" where
  "resize_indices indices = compute_ranges (diff_ranges indices)"

definition resize_edge_geometry ::
  "'a engine \<Rightarrow> ('a::zero, 'm) graph \<Rightarrow> (unit, ('a, 'm) graph) outcome" where
  "resize_edge_geometry E g =
     (case has_edge_geometry g ''coordinates'' of
        Inl e \<Rightarrow> Raise e g
      | Inr has \<Rightarrow>
          (case (if \<not> has then Inr True
                 else (case edge_geometry_type g of
                         Inl e \<Rightarrow> Inl e
                       | Inr t \<Rightarrow> Inr (t \<noteq> PStr ''graph''))) of
             Inl e \<Rightarrow> Raise e g
           | Inr True \<Rightarrow> Return () g
           | Inr False \<Rightarrow>
               (case edge_geometry_indices_graph E g None of
                  Inl e \<Rightarrow> Raise e g
                | Inr v \<Rightarrow>
                    (case as_ranges v of
                       Inl e \<Rightarrow> Raise e g
                     | Inr indices \<Rightarrow>
                         (case resize_indices indices of
                            Inl e \<Rightarrow> Raise e g
                          | Inr indices_new \<Rightarrow>
                              (case set_edge_geometry_indices_graph E g (PRanges indices_new)
                                      None of
                                 Raise e g' \<Rightarrow> Raise e g'
                               | Return u g' \<Rightarrow>
                                   reduce_edge_geometry_properties g' indices indices_new))))))"

subsection \<open>Changing the mode\<close>

fun graph_to_edge_loop ::
  "'a engine \<Rightarrow> 'a pyval \<Rightarrow> string list \<Rightarrow> ('a, 'm) graph \<Rightarrow> (unit, ('a, 'm) graph) outcome" where
  "graph_to_edge_loop E indices [] g = Return () g"
| "graph_to_edge_loop E indices (name # names) g =
     (case edge_geometry E g name None False False True None of
        Inl e \<Rightarrow> Raise e g
      | Inr (values, i) \<Rightarrow>
          (case remove_edge_geometry_graph g name of
             Raise e g' \<Rightarrow> Raise e g'
           | Return u g' \<Rightarrow>
               (case set_edge_geometry_edge E g' name values (Some indices) None of
                  Raise e g'' \<Rightarrow> Raise e g''
                | Return u' g'' \<Rightarrow> graph_to_edge_loop E indices names g'')))"

fun edge_to_graph_loop ::
  "'a engine \<Rightarrow> string list \<Rightarrow> ('a, 'm) graph \<Rightarrow> (unit, ('a, 'm) graph) outcome" where
  "edge_to_graph_loop E [] g = Return () g"
| "edge_to_graph_loop E (name # names) g =
     (case edge_geometry E g name None True False True None of
        Inl e \<Rightarrow> Raise e g
      | Inr (values, i) \<Rightarrow>
          (case remove_edge_geometry_edge g name of
             Raise e g' \<Rightarrow> Raise e g'
           | Return u g' \<Rightarrow>
               (case set_edge_geometry_graph E g' name values None None of
                  Raise e g'' \<Rightarrow> Raise e g''
                | Return u' g'' \<Rightarrow> edge_to_graph_loop E names g'')))"

definition set_edge_geometry_type ::
  "'a engine \<Rightarrow> ('a, 'm) graph \<Rightarrow> string \<Rightarrow> (unit, ('a, 'm) graph) outcome" where
  "set_edge_geometry_type E g new_type =
     (if new_type \<notin> set [''graph'', ''edge''] then Raise ValueError g
      else
        case edge_geometry_type g of
          Inl e \<Rightarrow> Raise e g
        | Inr t \<Rightarrow>
            if t = PStr new_type then Return () g
            else
              case (if t = PStr ''graph'' then
                      (case edge_geometry_indices_graph E g None of
                         Inl e \<Rightarrow> Raise e g
                       | Inr indices \<Rightarrow>
                           (case edge_geometry_property_names g of
                              Inl e \<Rightarrow> Raise e g
                            | Inr names \<Rightarrow>
                                (case graph_to_edge_loop E indices names g of
                                   Raise e g' \<Rightarrow> Raise e g'
                                 | Return u g' \<Rightarrow> remove_edge_geometry_indices_graph g')))
                    else
                      (case edge_geometry_property_names g of
                         Inl e \<Rightarrow> Raise e g
                       | Inr names \<Rightarrow> edge_to_graph_loop E names g)) of
                Raise e g' \<Rightarrow> Raise e g'
              | Return u g' \<Rightarrow>
                  (case set_graph_property g' ''edge_geometry_type'' (PStr new_type) of
                     Raise e g'' \<Rightarrow> Raise e g''
                   | Return u' g'' \<Rightarrow> Return () (invalidate_caches g'')))"

section \<open>The mesh cache\<close>

text \<open>
  \<open>mesh_tube\<close> of \<open>ClearMap.Analysis.Graphs.GraphRendering\<close> is a parameter: it computes
  the three arrays of the mesh from the graph.
\<close>

definition edge_meshes ::
  "(('a, 'm) graph \<Rightarrow> error + 'm \<times> 'm \<times> 'm) \<Rightarrow> ('a, 'm) graph
     \<Rightarrow> ('m option \<times> 'm option \<times> 'm option, ('a, 'm) graph) outcome" where
  "edge_meshes mesh_tube g =
     (if mesh_vertices g = None \<or> mesh_faces g = None then
        (case mesh_tube g of
           Inl e \<Rightarrow> Raise e g
         | Inr (v, f, i) \<Rightarrow>
             Return (Some v, Some f, Some i)
               (g\<lparr>mesh_vertices := Some v, mesh_faces := Some f, faces_edge_ids := Some i\<rparr>))
      else Return (mesh_vertices g, mesh_faces g, faces_edge_ids g) g)"

section \<open>Sub-graphs\<close>

text \<open>
  \<open>gt.GraphView(base, vfilt, efilt)\<close> and \<open>gt.Graph(view, prune=True)\<close> belong to
  \<open>graph_tool\<close>. Their model follows spec 4.4: a filter is a boolean array aligned to the
  vertex or edge ids (\<open>None\<close> keeps all); an edge is visible when its filter entry and both
  its end points are kept; the pruned copy renumbers the kept vertices and edges densely
  in their original relative order, keeps the entries of every vertex and edge property
  that belong to them, and copies the graph properties.
\<close>

definition filter_mask :: "bool list \<Rightarrow> 'b list \<Rightarrow> 'b list" where
  "filter_mask keep xs = map snd (filter fst (zip keep xs))"

definition GraphView ::
  "'a base_graph \<Rightarrow> bool list option \<Rightarrow> bool list option
     \<Rightarrow> error + 'a base_graph \<times> bool list \<times> bool list" where
  "GraphView b vfilt efilt =
     (let vm = (case vfilt of None \<Rightarrow> replicate (num_vertices b) True | Some m \<Rightarrow> m);
          em = (case efilt of None \<Rightarrow> replicate (length (edge_list b)) True | Some m \<Rightarrow> m)
      in if length vm \<noteq> num_vertices b \<or> length em \<noteq> length (edge_list b)
         then Inl ValueError
         else Inr (b, vm, em))"

definition visible_edges :: "'a base_graph \<times> bool list \<times> bool list \<Rightarrow> bool list" where
  "visible_edges gv =
     (case gv of (b, vm, em) \<Rightarrow>
        map (\<lambda>(k, (s, t)). k \<and> s < length vm \<and> vm ! s \<and> t < length vm \<and> vm ! t)
          (zip em (edge_list b)))"

definition prune_pyval :: "bool list \<Rightarrow> 'a pyval \<Rightarrow> 'a pyval" where
  "prune_pyval keep v =
     (case v of
        PArray (Arr1 xs) \<Rightarrow> PArray (Arr1 (filter_mask keep xs))
      | PArray (Arr2 d rows) \<Rightarrow> PArray (Arr2 d (filter_mask keep rows))
      | PRanges rs \<Rightarrow> PRanges (filter_mask keep rs)
      | PList as \<Rightarrow> PList (filter_mask keep as)
      | _ \<Rightarrow> v)"

definition Graph_prune :: "'a base_graph \<times> bool list \<times> bool list \<Rightarrow> 'a base_graph" where
  "Graph_prune gv =
     (case gv of (b, vm, em) \<Rightarrow>
        let keep = visible_edges gv;
            renumber = (\<lambda>v. length (filter id (take v vm)))
        in \<lparr>num_vertices = length (filter id vm),
            edge_list = map (\<lambda>(s, t). (renumber s, renumber t)) (filter_mask keep (edge_list b)),
            is_directed = is_directed b,
            vp = map (\<lambda>(k, v). (k, prune_pyval vm v)) (vp b),
            ep = map (\<lambda>(k, v). (k, prune_pyval keep v)) (ep b),
            gp = gp b\<rparr>)"

text \<open>
  \<open>sub_graph\<close> returns a \<open>Graph\<close> around a view, or an independent \<open>Graph\<close>. The model keeps
  the two apart: the methods above read an independent graph.
\<close>

datatype ('a, 'm) sub_graph_result =
  View "'a base_graph \<times> bool list \<times> bool list"
  | Owned "('a, 'm) graph"

definition sub_graph ::
  "'a engine \<Rightarrow> ('a::zero, 'm) graph \<Rightarrow> bool list option \<Rightarrow> bool list option \<Rightarrow> bool
     \<Rightarrow> error + ('a, 'm) sub_graph_result" where
  "sub_graph E self vertex_filter edge_filter view =
     (case GraphView (base self) vertex_filter edge_filter of
        Inl e \<Rightarrow> Inl e
      | Inr gv \<Rightarrow>
          if view then Inr (View gv)
          else
            (case resize_edge_geometry E (Graph_of_base (Graph_prune gv)) of
               Raise e g \<Rightarrow> Inl e
             | Return u g \<Rightarrow> Inr (Owned g)))"





section \<open>Binary morphology on edge labels\<close>

text \<open>
  One round of \<open>edge_propagate\<close> (lines 933-940). \<open>ec[edges]\<close> raises when the mask is not
  as long as the edge list; after it, every index written lies inside the label.
\<close>

definition propagate_vertices :: "('a, 'm) graph \<Rightarrow> 'v list \<Rightarrow> 'v \<Rightarrow> error + nat list" where
  "propagate_vertices g label value =
     (let edges = map (\<lambda>x. x = value) label;
          ec = edge_connectivity g
      in if length edges \<noteq> length ec then Inl IndexError
         else Inr (sort (remdups (concat (map (\<lambda>(s, t). [s, t]) (filter_mask edges ec))))))"

definition propagate_round :: "('a, 'm) graph \<Rightarrow> 'v list \<Rightarrow> 'v \<Rightarrow> error + 'v list" where
  "propagate_round g label value =
     (case propagate_vertices g label value of
        Inl e \<Rightarrow> Inl e
      | Inr vertices \<Rightarrow>
          Inr (fold (\<lambda>v l. fold (\<lambda>i l'. l'[i := value]) (vertex_edges_iterator g v) l)
                 vertices label))"

fun propagate_rounds :: "('a, 'm) graph \<Rightarrow> nat \<Rightarrow> 'v list \<Rightarrow> 'v \<Rightarrow> error + 'v list" where
  "propagate_rounds g 0 label value = Inr label"
| "propagate_rounds g (Suc n) label value =
     (case propagate_round g label value of
        Inl e \<Rightarrow> Inl e
      | Inr label' \<Rightarrow> propagate_rounds g n label' value)"

text \<open>\<open>steps\<close> is an integer or \<open>None\<close>; \<open>range(steps)\<close> is empty for a negative one.\<close>

definition edge_propagate ::
  "('a, 'm) graph \<Rightarrow> 'v list \<Rightarrow> 'v \<Rightarrow> int option \<Rightarrow> error + 'v list" where
  "edge_propagate g label value steps =
     (case steps of
        None \<Rightarrow> Inr label
      | Some n \<Rightarrow> propagate_rounds g (nat n) label value)"



text \<open>
  The same method with the arrays in a store, to follow which array each statement reads
  and writes: a heap is the list of the arrays allocated so far, an array's address is its
  position. \<open>np.array(label)\<close> allocates a copy; \<open>label[i] = value\<close> writes into the array
  that the local name \<open>label\<close> is bound to.
\<close>

type_synonym 'v heap = "'v list list"

definition np_array :: "'v heap \<Rightarrow> nat \<Rightarrow> nat \<times> 'v heap" where
  "np_array h a = (length h, h @ [h ! a])"

definition setitem :: "'v heap \<Rightarrow> nat \<Rightarrow> nat \<Rightarrow> 'v \<Rightarrow> 'v heap" where
  "setitem h a i v = h[a := (h ! a)[i := v]]"

definition propagate_round_heap ::
  "('a, 'm) graph \<Rightarrow> 'v heap \<Rightarrow> nat \<Rightarrow> 'v \<Rightarrow> (unit, 'v heap) outcome" where
  "propagate_round_heap g h label value =
     (case propagate_vertices g (h ! label) value of
        Inl e \<Rightarrow> Raise e h
      | Inr vertices \<Rightarrow>
          Return ()
            (fold (\<lambda>v h'. fold (\<lambda>i h''. setitem h'' label i value) (vertex_edges_iterator g v) h')
               vertices h))"

fun propagate_rounds_heap ::
  "('a, 'm) graph \<Rightarrow> nat \<Rightarrow> 'v heap \<Rightarrow> nat \<Rightarrow> 'v \<Rightarrow> (nat, 'v heap) outcome" where
  "propagate_rounds_heap g 0 h label value = Return label h"
| "propagate_rounds_heap g (Suc n) h label value =
     (case propagate_round_heap g h label value of
        Raise e h' \<Rightarrow> Raise e h'
      | Return u h' \<Rightarrow> propagate_rounds_heap g n h' label value)"

definition edge_propagate_heap ::
  "('a, 'm) graph \<Rightarrow> 'v heap \<Rightarrow> nat \<Rightarrow> 'v \<Rightarrow> int option \<Rightarrow> (nat, 'v heap) outcome" where
  "edge_propagate_heap g h label value steps =
     (case np_array h label of (label', h') \<Rightarrow>
        (case steps of
           None \<Rightarrow> Return label' h'
         | Some n \<Rightarrow> propagate_rounds_heap g (nat n) h' label' value))"

section \<open>Notions used to state the properties\<close>

fun state_of :: "('r, 's) outcome \<Rightarrow> 's" where
  "state_of (Return r s) = s"
| "state_of (Raise e s) = s"

fun returns :: "('r, 's) outcome \<Rightarrow> bool" where
  "returns (Return r s) = True"
| "returns (Raise e s) = False"

definition cache_cleared :: "('a, 'm) graph \<Rightarrow> bool" where
  "cache_cleared g =
     (mesh_vertices g = None \<and> mesh_faces g = None \<and> faces_edge_ids g = None)"

definition same_cache :: "('a, 'm) graph \<Rightarrow> ('a, 'm) graph \<Rightarrow> bool" where
  "same_cache g g' =
     (mesh_vertices g' = mesh_vertices g \<and> mesh_faces g' = mesh_faces g
      \<and> faces_edge_ids g' = faces_edge_ids g)"

text \<open>\<open>valid_range n r\<close>: the range \<open>r\<close> lies inside an array of \<open>n\<close> items.\<close>

definition valid_range :: "nat \<Rightarrow> int \<times> int \<Rightarrow> bool" where
  "valid_range n r = (0 \<le> fst r \<and> fst r \<le> snd r \<and> snd r \<le> int n)"



section \<open>The graph of the module's own test\<close>

text \<open>
  \<open>_test\<close> builds a graph of 10 vertices with the edges \<open>[[1, 3], [2, 5], [6, 7], [7, 9]]\<close>
  and sets an edge geometry of lengths \<open>[3, 4, 5, 6]\<close>, three coordinates per sample. The
  engine below is enough to run the module on it: it appends vertices and edges, labels
  the components of this graph, and supports no other operation.
\<close>

definition stub_engine :: "int engine" where
  "stub_engine =
     \<lparr>gt_add_vertex = (\<lambda>b n. Inr (b\<lparr>num_vertices := num_vertices b + nat n\<rparr>)),
      gt_vertex_add_missing =
        (\<lambda>b v. Inr (b\<lparr>num_vertices := max (num_vertices b) (nat v + 1)\<rparr>)),
      gt_remove_vertex = (\<lambda>b v. Inl NotImplementedError),
      gt_add_edge = (\<lambda>b s t. Inr (b\<lparr>edge_list := edge_list b @ [(s, t)]\<rparr>)),
      gt_add_edge_list = (\<lambda>b es. Inr (b\<lparr>edge_list := edge_list b @ es\<rparr>)),
      gt_remove_edge = (\<lambda>b i. Inl NotImplementedError),
      gt_edge = (\<lambda>b s t. Inl NotImplementedError),
      gt_find_edge = (\<lambda>b k. []),
      gt_getitem = (\<lambda>p i. Inl NotImplementedError),
      gt_setitem = (\<lambda>p i v. Inl NotImplementedError),
      gt_label_components = (\<lambda>b. ([0, 1, 2, 1, 3, 2, 4, 4, 5, 4], [1, 2, 2, 1, 3, 1]))\<rparr>"

definition test_base :: "int base_graph" where
  "test_base =
     \<lparr>num_vertices = 10, edge_list = [(1, 3), (2, 5), (6, 7), (7, 9)], is_directed = False,
      vp = [], ep = [],
      gp = [(''shape'', PNone), (''edge_geometry_type'', PStr ''graph'')]\<rparr>"

definition test_graph :: "(int, nat) graph" where
  "test_graph = Graph_of_base test_base"

definition test_geometry :: "int ndarray list" where
  "test_geometry =
     [Arr2 3 [[0, 1, 2], [10, 11, 12], [20, 21, 22]],
      Arr2 3 [[30, 31, 32], [40, 41, 42], [50, 51, 52], [60, 61, 62]],
      Arr2 3 [[70, 71, 72], [80, 81, 82], [90, 91, 92], [100, 101, 102], [110, 111, 112]],
      Arr2 3 [[120, 121, 122], [130, 131, 132], [140, 141, 142], [150, 151, 152], [160, 161, 162], [170, 171, 172]]]"

definition packed_graph :: "(int, nat) graph" where
  "packed_graph =
     state_of (set_edge_geometry stub_engine test_graph ''coordinates'' (PList test_geometry)
       None None)"

text \<open>
  The sub-graph of the packed test graph on the vertices \<open>0 .. 4\<close>, which keeps the edge
  \<open>(1, 3)\<close> and its three samples.
\<close>

definition kept_graph :: "(int, nat) graph" where
  "kept_graph =
     \<lparr>base = \<lparr>num_vertices = 5, edge_list = [(1, 3)], is_directed = False, vp = [],
              ep = [(''edge_geometry_indices'', PRanges [(0, 3)])],
              gp = [(''shape'', PNone), (''edge_geometry_type'', PStr ''graph''),
                    (''edge_geometry_coordinates'',
                     PArray (Arr2 3 [[0, 1, 2], [10, 11, 12], [20, 21, 22]]))]\<rparr>,
      mesh_vertices = None, mesh_faces = None, faces_edge_ids = None\<rparr>"


definition flat_radii_graph :: "(int, nat) graph" where
  "flat_radii_graph =
     state_of (set_edge_geometry stub_engine test_graph ''radii''
       (PArray (Arr1 [0, 1, 2, 3, 4, 5, 6, 7, 8, 9, 10, 11, 12, 13, 14, 15, 16, 17]))
       (Some (PRanges [(0, 3), (3, 7), (7, 12), (12, 18)])) None)"

definition flat_radii_sub_graph :: "(int, nat) graph" where
  "flat_radii_sub_graph =
     \<lparr>base = \<lparr>num_vertices = 3, edge_list = [(0, 1), (1, 2)], is_directed = False, vp = [],
              ep = [(''edge_geometry_indices'', PRanges [(7, 12), (12, 18)])],
              gp = [(''shape'', PNone), (''edge_geometry_type'', PStr ''graph''),
                    (''edge_geometry_radii'',
                     PArray (Arr1 [0, 1, 2, 3, 4, 5, 6, 7, 8, 9, 10, 11, 12, 13, 14, 15, 16, 17]))]\<rparr>,
      mesh_vertices = None, mesh_faces = None, faces_edge_ids = None\<rparr>"

text \<open>A stand-in for \<open>mesh_tube\<close> whose result depends on the property tables.\<close>

definition count_mesh :: "(int, nat) graph \<Rightarrow> error + nat \<times> nat \<times> nat" where
  "count_mesh g = Inr (length (vp (base g)), length (ep (base g)), length (gp (base g)))"

definition meshed_graph :: "(int, nat) graph" where
  "meshed_graph = state_of (edge_meshes count_mesh packed_graph)"




section \<open>Properties of the index ranges\<close>

lemma length_cumsum_from [simp]: "length (cumsum_from acc ls) = length ls"
  by (induction ls arbitrary: acc) simp_all

lemma diff_shifted_cumsum:
  "diff_ranges (zip (acc # butlast (cumsum_from acc ls)) (cumsum_from acc ls)) = ls"
proof (induction ls arbitrary: acc)
  case Nil
  show ?case by (simp add: diff_ranges_def)
next
  case (Cons x xs)
  show ?case
  proof (cases "cumsum_from (acc + x) xs = []")
    case True
    then have "xs = []" by (cases xs) simp_all
    then show ?thesis by (simp add: diff_ranges_def)
  next
    case False
    with Cons.IH [of "acc + x"] show ?thesis by (simp add: diff_ranges_def)
  qed
qed

lemma compute_ranges_diff: "compute_ranges ls = Inr r \<Longrightarrow> diff_ranges r = ls"
  using diff_shifted_cumsum [of 0 ls]
  by (auto simp: compute_ranges_def cumsum_def Let_def split: if_splits)

lemma compute_ranges_nonempty: "ls \<noteq> [] \<Longrightarrow> \<exists>r. compute_ranges ls = Inr r"
  by (cases ls) (simp_all add: compute_ranges_def cumsum_def)

lemma compute_ranges_empty: "compute_ranges [] = Inl ValueError"
  by (simp add: compute_ranges_def cumsum_def)



section \<open>The graph of the test, evaluated\<close>

lemma edge_geometry_type_test_graph: "edge_geometry_type test_graph = Inr (PStr ''graph'')"
  by (simp add: edge_geometry_type_def graph_property_def lookup_def test_graph_def
      Graph_of_base_def test_base_def)

lemma packed_graph_eq:
  "packed_graph =
     \<lparr>base = \<lparr>num_vertices = 10, edge_list = [(1, 3), (2, 5), (6, 7), (7, 9)],
              is_directed = False, vp = [],
              ep = [(''edge_geometry_indices'', PRanges [(0, 3), (3, 7), (7, 12), (12, 18)])],
              gp = [(''shape'', PNone), (''edge_geometry_type'', PStr ''graph''),
                    (''edge_geometry_coordinates'', PArray (Arr2 3 (concat (map (\<lambda>a. snd (atleast_2d a)) test_geometry))))]\<rparr>,
      mesh_vertices = None, mesh_faces = None, faces_edge_ids = None\<rparr>"
  by (simp add: packed_graph_def set_edge_geometry_def edge_geometry_type_def graph_property_def
      lookup_def test_graph_def Graph_of_base_def test_base_def set_edge_geometry_graph_def
      test_geometry_def compute_ranges_def cumsum_def vstack_def define_edge_property_def
      edge_properties_def add_edge_property_def property_map_from_python_def
      invalidate_caches_def define_graph_property_def graph_properties_def
      add_graph_property_def edge_geometry_property_name_def
      edge_geometry_indices_name_graph_def Let_def)

lemma edge_geometry_type_packed_graph: "edge_geometry_type packed_graph = Inr (PStr ''graph'')"
  by (simp add: packed_graph_eq edge_geometry_type_def graph_property_def lookup_def)

section \<open>Mode conversion\<close>

lemma packed_graph_geometry:
  "edge_geometry stub_engine packed_graph ''coordinates'' None True False True None =
     Inr (PList test_geometry, None)"
  unfolding packed_graph_eq
  apply (simp add: edge_geometry_def edge_geometry_type_def graph_property_def lookup_def
      edge_geometry_graph_def edge_geometry_property_name_def edge_geometry_indices_graph_def
      edge_property_def edge_geometry_indices_name_graph_def property_map_to_python_def
      as_ranges_def pyval_slice_def Let_def)
  apply (simp add: test_geometry_def py_slice_def slice_bound_def)
  done

lemma set_edge_geometry_type_first_name:
  assumes "edge_geometry_type g = Inr (PStr ''graph'')"
    and "edge_geometry_indices_graph E g None = Inr indices"
    and "edge_geometry_property_names g = Inr (name # names)"
    and "graph_property g (edge_geometry_property_name name) = Inl KeyError"
  shows "set_edge_geometry_type E g ''edge'' = Raise KeyError g"
  using assms
  by (simp add: set_edge_geometry_type_def edge_geometry_def edge_geometry_graph_def Let_def)

lemma remove_edge_geometry_graph_gp:
  "\<exists>g'. remove_edge_geometry_graph g name = Return () g' \<and>
     map_of (gp (base g')) = (map_of (gp (base g))) (edge_geometry_property_name name := None)"
proof (cases "edge_geometry_property_name name \<in> set (graph_properties g)")
  case True
  then show ?thesis
    by (simp add: remove_edge_geometry_graph_def remove_graph_property_def Let_def
        invalidate_caches_def delete_conv')
next
  case False
  then have "map_of (gp (base g)) (edge_geometry_property_name name) = None"
    by (simp add: graph_properties_def map_of_eq_None_iff)
  with False show ?thesis
    by (auto simp: remove_edge_geometry_graph_def Let_def)
qed

lemma set_edge_property_gp:
  "set_edge_property E g name src e = Return u g' \<Longrightarrow> gp (base g') = gp (base g)"
  by (auto simp: set_edge_property_def invalidate_caches_def split: option.splits sum.splits)

lemma add_edge_property_gp:
  "add_edge_property g name src = Return u g' \<Longrightarrow> gp (base g') = gp (base g)"
  by (auto simp: add_edge_property_def invalidate_caches_def Let_def)

lemma define_edge_property_gp:
  "define_edge_property E g name src e = Return u g' \<Longrightarrow> gp (base g') = gp (base g)"
  by (auto simp: define_edge_property_def split: if_splits outcome.splits)
    (metis set_edge_property_gp add_edge_property_gp)+

lemma set_edge_geometry_edge_gp:
  "set_edge_geometry_edge E g name values indices e = Return u g' \<Longrightarrow>
   gp (base g') = gp (base g)"
  by (auto simp: set_edge_geometry_edge_def set_edge_geometry_vector_edge_def
      set_edge_geometry_scalar_edge_def dest: define_edge_property_gp
      split: if_splits sum.splits)

lemma twin_differs: "name \<noteq> ''type'' \<Longrightarrow> edge_geometry_property_name name \<noteq> ''edge_geometry_type''"
  by (simp add: edge_geometry_property_name_def)

lemma graph_to_edge_loop_raises:
  assumes "map_of (gp (base g)) ''edge_geometry_type'' = Some (PStr ''graph'')"
    and "''type'' \<notin> set names"
    and "m \<in> set names"
    and "map_of (gp (base g)) (edge_geometry_property_name m) = None"
  shows "\<not> returns (graph_to_edge_loop E indices names g)"
  using assms
proof (induction names arbitrary: g)
  case Nil
  then show ?case by simp
next
  case (Cons n rest)
  have ty: "edge_geometry_type g = Inr (PStr ''graph'')"
    using Cons.prems(1) by (simp add: edge_geometry_type_def graph_property_def lookup_def)
  show ?case
  proof (cases "n = m")
    case True
    have "edge_geometry E g n None False False True None = Inl KeyError"
      using Cons.prems(4) True ty
      by (simp add: edge_geometry_def edge_geometry_graph_def graph_property_def lookup_def
          Let_def)
    then show ?thesis by simp
  next
    case False
    then have mr: "m \<in> set rest" using Cons.prems(3) by simp
    have nt: "n \<noteq> ''type''" "''type'' \<notin> set rest" using Cons.prems(2) by auto
    show ?thesis
    proof (cases "edge_geometry E g n None False False True None")
      case (Inl e)
      then show ?thesis by simp
    next
      case (Inr r)
      obtain vals i where r: "r = (vals, i)" by (cases r)
      obtain g1 where g1: "remove_edge_geometry_graph g n = Return () g1"
        "map_of (gp (base g1)) = (map_of (gp (base g))) (edge_geometry_property_name n := None)"
        using remove_edge_geometry_graph_gp by blast
      show ?thesis
      proof (cases "set_edge_geometry_edge E g1 n vals (Some indices) None")
        case (Raise e g2)
        then show ?thesis using Inr r g1(1) by simp
      next
        case (Return u g2)
        have gp2: "gp (base g2) = gp (base g1)" by (rule set_edge_geometry_edge_gp [OF Return])
        have a1: "map_of (gp (base g2)) ''edge_geometry_type'' = Some (PStr ''graph'')"
          using Cons.prems(1) twin_differs [OF nt(1)] by (simp add: gp2 g1(2))
        have a4: "map_of (gp (base g2)) (edge_geometry_property_name m) = None"
          using Cons.prems(4) by (simp add: gp2 g1(2))
        from Cons.IH [OF a1 nt(2) mr a4] Inr r g1(1) Return show ?thesis by simp
      qed
    qed
  qed
qed

lemma longest_name: "names \<noteq> [] \<Longrightarrow> \<exists>m \<in> set names. \<forall>n \<in> set names. length n \<le> length (m :: string)"
proof -
  assume ne: "names \<noteq> []"
  let ?L = "length ` set names"
  have "Max ?L \<in> ?L" using ne by (intro Max_in) auto
  then obtain m where m: "m \<in> set names" "length m = Max ?L" by auto
  have "\<forall>n \<in> set names. length n \<le> Max ?L" by (auto intro: Max_ge)
  then show ?thesis using m by (intro bexI [of _ m]) auto
qed

text \<open>
  C1. For every graph in packed mode that has at least one geometry property,
  \<open>set_edge_geometry_type\<close> to \<open>'edge'\<close> does not return: it raises. The loop passes the
  full property names (\<open>edge_geometry_coordinates\<close>) to \<open>edge_geometry\<close>, which prefixes a
  name again before the lookup, and the longest of these names has no doubly prefixed
  twin among the graph properties. The conversion to scattered mode and back cannot be
  run. On the graph of the test the per-edge sample sequences of the coordinates are the
  four arrays that were set, and the conversion raises \<open>KeyError\<close> and leaves the graph
  packed, as it was.
\<close>

theorem packed_to_scattered_never_returns:
  assumes "edge_geometry_type g = Inr (PStr ''graph'')"
    and "edge_geometry_property_names g = Inr names"
    and "names \<noteq> []"
  shows "\<not> returns (set_edge_geometry_type E g ''edge'')"
proof -
  let ?P = "\<lambda>p. startswith p (edge_geometry_property_name []) \<and> p \<noteq> ''edge_geometry_type''"
  have nm: "names = filter ?P (graph_properties g)"
    using assms(1,2) by (simp add: edge_geometry_property_names_def Let_def)
  obtain m where m: "m \<in> set names" "\<forall>n \<in> set names. length n \<le> length m"
    using longest_name [OF assms(3)] by blast
  have pre: "\<And>n. n \<in> set names \<Longrightarrow> startswith n (edge_geometry_property_name [])"
    unfolding nm by simp
  have nt: "''type'' \<notin> set names"
  proof
    assume "''type'' \<in> set names"
    from pre [OF this] show False
      by (simp add: startswith_def edge_geometry_property_name_def)
  qed
  have tw: "map_of (gp (base g)) (edge_geometry_property_name m) = None"
  proof (rule ccontr)
    assume "map_of (gp (base g)) (edge_geometry_property_name m) \<noteq> None"
    then have k: "edge_geometry_property_name m \<in> set (graph_properties g)"
      by (simp add: graph_properties_def map_of_eq_None_iff)
    have "m \<noteq> ''type''" using m(1) nt by auto
    then have "?P (edge_geometry_property_name m)"
      by (simp add: startswith_def edge_geometry_property_name_def)
    with k have "edge_geometry_property_name m \<in> set names" by (simp add: nm)
    with m(2) have "length (edge_geometry_property_name m) \<le> length m" by blast
    then show False by (simp add: edge_geometry_property_name_def)
  qed
  have ty: "map_of (gp (base g)) ''edge_geometry_type'' = Some (PStr ''graph'')"
    using assms(1)
    by (auto simp: edge_geometry_type_def graph_property_def lookup_def split: option.splits)
  have loop: "\<And>indices. \<not> returns (graph_to_edge_loop E indices names g)"
    by (rule graph_to_edge_loop_raises [OF ty nt m(1) tw])
  show ?thesis
  proof (cases "edge_geometry_indices_graph E g None")
    case (Inl e)
    then show ?thesis using assms(1) by (simp add: set_edge_geometry_type_def)
  next
    case (Inr indices)
    show ?thesis
    proof (cases "graph_to_edge_loop E indices names g")
      case (Return u g')
      with loop [of indices] show ?thesis by simp
    next
      case (Raise e g')
      then show ?thesis using assms(1,2) Inr by (simp add: set_edge_geometry_type_def)
    qed
  qed
qed

theorem packed_to_scattered_never_returns_witness:
  "edge_geometry_type packed_graph = Inr (PStr ''graph'') \<and>
   edge_geometry_property_names packed_graph = Inr [''edge_geometry_coordinates''] \<and>
   edge_geometry stub_engine packed_graph ''coordinates'' None True False True None =
     Inr (PList test_geometry, None) \<and>
   \<not> returns (set_edge_geometry_type stub_engine packed_graph ''edge'') \<and>
   set_edge_geometry_type stub_engine packed_graph ''edge'' = Raise KeyError packed_graph"
proof -
  have h1: "edge_geometry_type packed_graph = Inr (PStr ''graph'')"
    by (rule edge_geometry_type_packed_graph)
  have h2: "edge_geometry_indices_graph stub_engine packed_graph None =
      Inr (PRanges [(0, 3), (3, 7), (7, 12), (12, 18)])"
    by (simp add: packed_graph_eq edge_geometry_indices_graph_def edge_property_def lookup_def
        edge_geometry_indices_name_graph_def edge_geometry_property_name_def
        property_map_to_python_def)
  have h3: "edge_geometry_property_names packed_graph = Inr [''edge_geometry_coordinates'']"
    by (simp add: packed_graph_eq edge_geometry_property_names_def edge_geometry_type_def
        graph_property_def lookup_def graph_properties_def startswith_def
        edge_geometry_property_name_def Let_def)
  have h4: "graph_property packed_graph
      (edge_geometry_property_name ''edge_geometry_coordinates'') = Inl KeyError"
    by (simp add: packed_graph_eq graph_property_def lookup_def
        edge_geometry_property_name_def)
  have ne: "[''edge_geometry_coordinates''] \<noteq> []" by simp
  show ?thesis
    using h1 h3 packed_graph_geometry
      packed_to_scattered_never_returns [OF h1 h3 ne, of stub_engine]
      set_edge_geometry_type_first_name [OF h1 h2 h3 h4]
    by simp
qed

section \<open>Writing a single edge in packed mode\<close>

text \<open>
  C6. In packed mode (\<open>edge_geometry_type\<close> is \<open>'graph'\<close>), \<open>set_edge_geometry\<close> with an
  edge argument raises \<open>NotImplementedError\<close> and the graph, its geometry store included,
  is left unchanged.
\<close>

theorem packed_single_edge_write_fails:
  "edge_geometry_type g = Inr (PStr ''graph'') \<Longrightarrow>
   set_edge_geometry E g name values indices (Some e) = Raise NotImplementedError g"
  by (simp add: set_edge_geometry_def set_edge_geometry_graph_def)

theorem packed_single_edge_write_fails_witness:
  "edge_geometry_type packed_graph = Inr (PStr ''graph'') \<and>
   set_edge_geometry stub_engine packed_graph ''coordinates'' (PArray (Arr2 3 [[1, 2, 3]])) None
     (Some (EdgeInt 0)) = Raise NotImplementedError packed_graph"
  using edge_geometry_type_packed_graph
    packed_single_edge_write_fails [OF edge_geometry_type_packed_graph]
  by simp

section \<open>Mutations and the mesh cache\<close>

lemma cache_cleared_invalidate: "cache_cleared (invalidate_caches g)"
  by (simp add: cache_cleared_def invalidate_caches_def)

lemma add_vertex_clears: "add_vertex E g n v = Return u g' \<Longrightarrow> cache_cleared g'"
  by (auto simp: add_vertex_def cache_cleared_invalidate split: option.splits sum.splits)

lemma remove_vertex_clears: "remove_vertex E g v = Return u g' \<Longrightarrow> cache_cleared g'"
  by (auto simp: remove_vertex_def cache_cleared_invalidate split: sum.splits)

lemma add_edge_clears: "add_edge E g a = Return u g' \<Longrightarrow> cache_cleared g'"
  by (auto simp: add_edge_def cache_cleared_invalidate split: sum.splits edge_arg.splits)

lemma remove_edge_clears: "remove_edge E g s = Return u g' \<Longrightarrow> cache_cleared g'"
  by (auto simp: remove_edge_def cache_cleared_invalidate split: sum.splits)

lemma remove_vertex_property_clears:
  "remove_vertex_property g name = Return u g' \<Longrightarrow> cache_cleared g'"
  by (auto simp: remove_vertex_property_def cache_cleared_invalidate split: if_splits)

lemma add_edge_property_clears:
  "add_edge_property g name src = Return u g' \<Longrightarrow> cache_cleared g'"
  by (auto simp: add_edge_property_def Let_def cache_cleared_invalidate)

lemma set_edge_property_clears:
  "set_edge_property E g name src e = Return u g' \<Longrightarrow> cache_cleared g'"
  by (auto simp: set_edge_property_def cache_cleared_invalidate split: option.splits sum.splits)

lemma define_edge_property_clears:
  "define_edge_property E g name src e = Return u g' \<Longrightarrow> cache_cleared g'"
  by (auto simp: define_edge_property_def
      dest: add_edge_property_clears set_edge_property_clears
      split: if_splits outcome.splits)

lemma remove_edge_property_clears:
  "remove_edge_property g name = Return u g' \<Longrightarrow> cache_cleared g'"
  by (auto simp: remove_edge_property_def cache_cleared_invalidate split: if_splits)

lemma add_graph_property_clears:
  "add_graph_property g name src = Return u g' \<Longrightarrow> cache_cleared g'"
  by (auto simp: add_graph_property_def cache_cleared_invalidate)

lemma set_graph_property_clears:
  "set_graph_property g name src = Return u g' \<Longrightarrow> cache_cleared g'"
  by (auto simp: set_graph_property_def cache_cleared_invalidate split: if_splits)

lemma define_graph_property_clears:
  "define_graph_property g name src = Return u g' \<Longrightarrow> cache_cleared g'"
  by (auto simp: define_graph_property_def
      dest: add_graph_property_clears set_graph_property_clears split: if_splits)

lemma remove_graph_property_clears:
  "remove_graph_property g name = Return u g' \<Longrightarrow> cache_cleared g'"
  by (auto simp: remove_graph_property_def cache_cleared_invalidate split: if_splits)

lemma edge_meshes_recomputes:
  "cache_cleared g \<Longrightarrow>
   edge_meshes mesh_tube g =
     (case mesh_tube g of
        Inl e \<Rightarrow> Raise e g
      | Inr (v, f, i) \<Rightarrow>
          Return (Some v, Some f, Some i)
            (g\<lparr>mesh_vertices := Some v, mesh_faces := Some f, faces_edge_ids := Some i\<rparr>))"
  by (simp add: edge_meshes_def cache_cleared_def)

lemma add_vertex_property_keeps:
  "add_vertex_property g name src = Return u g' \<Longrightarrow> same_cache g g'"
  by (auto simp: add_vertex_property_def Let_def same_cache_def)

lemma set_vertex_property_keeps:
  "set_vertex_property E g name src v = Return u g' \<Longrightarrow> same_cache g g'"
  by (auto simp: set_vertex_property_def same_cache_def split: option.splits sum.splits)

text \<open>
  C7. Whenever one of \<open>add_vertex\<close>, \<open>remove_vertex\<close>, \<open>add_edge\<close>, \<open>remove_edge\<close>,
  \<open>remove_vertex_property\<close>, the four edge property methods and the four graph property
  methods returns, the three fields of the mesh cache are \<open>None\<close>, and a read of
  \<open>edge_meshes\<close> on a cleared cache calls \<open>mesh_tube\<close> on the graph as it is then.
  \<open>add_vertex_property\<close> and \<open>set_vertex_property\<close> leave the cache as they found it
  (their calls of \<open>invalidate_caches\<close> are commented out in the source).
\<close>

theorem mutations_and_mesh_cache:
  "(add_vertex E g n v = Return u g' \<longrightarrow> cache_cleared g') \<and>
   (remove_vertex E g vertex = Return u g' \<longrightarrow> cache_cleared g') \<and>
   (add_edge E g arg = Return u g' \<longrightarrow> cache_cleared g') \<and>
   (remove_edge E g spec = Return u g' \<longrightarrow> cache_cleared g') \<and>
   (remove_vertex_property g name = Return u g' \<longrightarrow> cache_cleared g') \<and>
   (add_edge_property g name source = Return u g' \<longrightarrow> cache_cleared g') \<and>
   (set_edge_property E g name source e = Return u g' \<longrightarrow> cache_cleared g') \<and>
   (define_edge_property E g name source e = Return u g' \<longrightarrow> cache_cleared g') \<and>
   (remove_edge_property g name = Return u g' \<longrightarrow> cache_cleared g') \<and>
   (add_graph_property g name source = Return u g' \<longrightarrow> cache_cleared g') \<and>
   (set_graph_property g name source = Return u g' \<longrightarrow> cache_cleared g') \<and>
   (define_graph_property g name source = Return u g' \<longrightarrow> cache_cleared g') \<and>
   (remove_graph_property g name = Return u g' \<longrightarrow> cache_cleared g') \<and>
   (cache_cleared g' \<longrightarrow>
      edge_meshes mesh_tube g' =
        (case mesh_tube g' of
           Inl err \<Rightarrow> Raise err g'
         | Inr (mv, mf, fe) \<Rightarrow>
             Return (Some mv, Some mf, Some fe)
               (g'\<lparr>mesh_vertices := Some mv, mesh_faces := Some mf, faces_edge_ids := Some fe\<rparr>))) \<and>
   (add_vertex_property g name source = Return u g' \<longrightarrow> same_cache g g') \<and>
   (set_vertex_property E g name source vtx = Return u g' \<longrightarrow> same_cache g g')"
  by (intro conjI impI;
      (erule add_vertex_clears | erule remove_vertex_clears | erule add_edge_clears
       | erule remove_edge_clears | erule remove_vertex_property_clears
       | erule add_edge_property_clears | erule set_edge_property_clears
       | erule define_edge_property_clears | erule remove_edge_property_clears
       | erule add_graph_property_clears | erule set_graph_property_clears
       | erule define_graph_property_clears | erule remove_graph_property_clears
       | erule edge_meshes_recomputes | erule add_vertex_property_keeps
       | erule set_vertex_property_keeps))

lemma meshed_graph_eq:
  "meshed_graph = packed_graph\<lparr>mesh_vertices := Some 0, mesh_faces := Some 1, faces_edge_ids := Some 3\<rparr>"
  by (simp add: meshed_graph_def edge_meshes_def count_mesh_def packed_graph_eq)

theorem mutations_and_mesh_cache_witness:
  "add_edge_property meshed_graph ''test'' (PArray (Arr1 [3, 4, 5, 6])) =
     Return () (state_of (add_edge_property meshed_graph ''test'' (PArray (Arr1 [3, 4, 5, 6])))) \<and>
   cache_cleared (state_of (add_edge_property meshed_graph ''test'' (PArray (Arr1 [3, 4, 5, 6])))) \<and>
   edge_meshes count_mesh
       (state_of (add_edge_property meshed_graph ''test'' (PArray (Arr1 [3, 4, 5, 6])))) =
     Return (Some 0, Some 2, Some 3)
       ((state_of (add_edge_property meshed_graph ''test'' (PArray (Arr1 [3, 4, 5, 6]))))
          \<lparr>mesh_vertices := Some 0, mesh_faces := Some 2, faces_edge_ids := Some 3\<rparr>)"
  using mutations_and_mesh_cache [of stub_engine meshed_graph None None "()"
      "state_of (add_edge_property meshed_graph ''test'' (PArray (Arr1 [3, 4, 5, 6])))"
      0 "OneEdge 0 0" "EdgeOther" "''test''" "PArray (Arr1 [3, 4, 5, 6])" None count_mesh None]
  by (simp add: add_edge_property_def Let_def count_mesh_def property_map_from_python_def
      invalidate_caches_def meshed_graph_eq packed_graph_eq)

text \<open>
  C7, as stated, fails for \<open>add_vertex_property\<close>: on a graph whose mesh is cached the
  method returns, the cache is not cleared, and the next read of \<open>edge_meshes\<close> returns the
  mesh computed before the mutation, where \<open>mesh_tube\<close> would now give another one.
\<close>

theorem add_vertex_property_keeps_stale_mesh:
  "add_vertex_property meshed_graph ''test'' (PArray (Arr1 [0, 1, 2, 3, 4, 5, 6, 7, 8, 9])) =
     Return () (state_of (add_vertex_property meshed_graph ''test''
                  (PArray (Arr1 [0, 1, 2, 3, 4, 5, 6, 7, 8, 9])))) \<and>
   \<not> cache_cleared (state_of (add_vertex_property meshed_graph ''test''
                  (PArray (Arr1 [0, 1, 2, 3, 4, 5, 6, 7, 8, 9])))) \<and>
   edge_meshes count_mesh (state_of (add_vertex_property meshed_graph ''test''
                  (PArray (Arr1 [0, 1, 2, 3, 4, 5, 6, 7, 8, 9])))) =
     Return (Some 0, Some 1, Some 3) (state_of (add_vertex_property meshed_graph ''test''
                  (PArray (Arr1 [0, 1, 2, 3, 4, 5, 6, 7, 8, 9])))) \<and>
   count_mesh (state_of (add_vertex_property meshed_graph ''test''
                  (PArray (Arr1 [0, 1, 2, 3, 4, 5, 6, 7, 8, 9])))) = Inr (1, 1, 3)"
  by (simp add: add_vertex_property_def Let_def count_mesh_def property_map_from_python_def
      cache_cleared_def edge_meshes_def meshed_graph_eq packed_graph_eq)

section \<open>The largest component\<close>





section \<open>The length guard of the range remap\<close>

lemma nth_pair_in_zip:
  "i < length old \<Longrightarrow> i < length new \<Longrightarrow> (old ! i, new ! i) \<in> set (zip old new)"
  unfolding in_set_zip by (intro exI [of _ i]) simp

lemma range_lengths_disagree:
  assumes "i < length old" "i < length new"
    "snd (old ! i) - fst (old ! i) \<noteq> snd (new ! i) - fst (new ! i)"
  shows "\<not> range_lengths_agree old new"
proof
  assume a: "range_lengths_agree old new"
  have "\<forall>p \<in> set (zip old new). snd (fst p) - fst (fst p) = snd (snd p) - fst (snd p)"
    using a by (simp add: range_lengths_agree_def list_all_iff case_prod_unfold)
  then have "snd (fst (old ! i, new ! i)) - fst (fst (old ! i, new ! i))
      = snd (snd (old ! i, new ! i)) - fst (snd (old ! i, new ! i))"
    using nth_pair_in_zip [OF assms(1,2)] by (rule bspec)
  then show False using assms(3) by simp
qed

text \<open>
  C5. If the old and the new range of some edge \<open>i\<close> differ in length, the remap raises
  \<open>ConsistencyError\<close> and the destination array is as it was given.
\<close>

theorem remap_length_guard:
  assumes "i < length old" "i < length new"
    "snd (old ! i) - fst (old ! i) \<noteq> snd (new ! i) - fst (new ! i)"
  shows "remap_array_ranges src dst old new = Raise ConsistencyError dst"
  using range_lengths_disagree [OF assms] by (simp add: remap_array_ranges_def)

theorem remap_length_guard_witness:
  "(1::nat) < length [(0::int, 3::int), (3, 7)] \<and> (1::nat) < length [(0::int, 3::int), (3, 6)] \<and>
   remap_array_ranges [10, 11, 12, 13, 14, 15, 16 :: int] [0, 0, 0, 0, 0, 0]
     [(0, 3), (3, 7)] [(0, 3), (3, 6)] = Raise ConsistencyError [0, 0, 0, 0, 0, 0]"
  using remap_length_guard [of 1 "[(0, 3), (3, 7)]" "[(0, 3), (3, 6)]"
      "[10, 11, 12, 13, 14, 15, 16 :: int]" "[0, 0, 0, 0, 0, 0 :: int]"]
  by simp

section \<open>Edge dilation and erosion\<close>

lemma length_fold_update [simp]: "length (fold (\<lambda>j l'. l'[j := v]) js l) = length l"
  by (induction js arbitrary: l) simp_all


lemma length_fold_fold_update [simp]:
  "length (fold (\<lambda>x l'. fold (\<lambda>j l''. l''[j := v]) (f x) l') xs l) = length l"
  by (induction xs arbitrary: l) simp_all


















section \<open>The caller's label array\<close>

lemma length_setitem [simp]: "length (setitem h a i v) = length h"
  by (simp add: setitem_def)

lemma fold_setitem:
  "a < length h \<Longrightarrow>
   fold (\<lambda>i h'. setitem h' a i v) js h = h[a := fold (\<lambda>i l. l[i := v]) js (h ! a)]"
proof (induction js arbitrary: h)
  case Nil
  show ?case by simp
next
  case (Cons j js)
  have "a < length (setitem h a j v)" using Cons.prems by simp
  from Cons.IH [OF this] Cons.prems show ?case by (simp add: setitem_def)
qed

lemma fold_fold_setitem:
  "a < length h \<Longrightarrow>
   fold (\<lambda>x h'. fold (\<lambda>i h''. setitem h'' a i v) (f x) h') xs h =
     h[a := fold (\<lambda>x l. fold (\<lambda>i l'. l'[i := v]) (f x) l) xs (h ! a)]"
proof (induction xs arbitrary: h)
  case Nil
  show ?case by simp
next
  case (Cons x xs)
  have "a < length (h[a := fold (\<lambda>i l. l[i := v]) (f x) (h ! a)])" using Cons.prems by simp
  from Cons.IH [OF this] Cons.prems show ?case by (simp add: fold_setitem)
qed

lemma propagate_round_heap_refines:
  "a < length h \<Longrightarrow>
   propagate_round_heap g h a v =
     (case propagate_round g (h ! a) v of
        Inl e \<Rightarrow> Raise e h
      | Inr l \<Rightarrow> Return () (h[a := l]))"
  by (simp add: propagate_round_heap_def propagate_round_def fold_fold_setitem
      split: sum.splits)

lemma propagate_rounds_heap_refines:
  "a < length h \<Longrightarrow>
   (case propagate_rounds_heap g n h a v of
      Return l' h' \<Rightarrow>
        l' = a \<and> length h' = length h \<and> take a h' = take a h
        \<and> propagate_rounds g n (h ! a) v = Inr (h' ! a)
    | Raise e h' \<Rightarrow>
        length h' = length h \<and> take a h' = take a h
        \<and> propagate_rounds g n (h ! a) v = Inl e)"
proof (induction n arbitrary: h)
  case 0
  show ?case by simp
next
  case (Suc n)
  show ?case
  proof (cases "propagate_round g (h ! a) v")
    case (Inl e)
    then show ?thesis using Suc.prems by (simp add: propagate_round_heap_refines)
  next
    case (Inr l)
    have "a < length (h[a := l])" using Suc.prems by simp
    from Suc.IH [OF this] Inr Suc.prems show ?thesis
      by (simp add: propagate_round_heap_refines split: outcome.splits)
  qed
qed

text \<open>
  C10. \<open>edge_propagate\<close>, run on a store of arrays: whether it returns or raises, and for
  every \<open>steps\<close> (\<open>None\<close> included), the store has one more array than before and all the
  arrays that existed before the call, the caller's \<open>label\<close> among them, are unchanged.
  When it returns, it returns the address of the new array, which holds what
  \<open>edge_propagate\<close> computes on the content of the caller's array.
\<close>

theorem edge_propagate_heap_copies:
  "(case edge_propagate_heap g h label value steps of
      Return l' h' \<Rightarrow>
        l' = length h \<and> length h' = Suc (length h) \<and> take (length h) h' = h
        \<and> edge_propagate g (h ! label) value steps = Inr (h' ! l')
    | Raise e h' \<Rightarrow>
        length h' = Suc (length h) \<and> take (length h) h' = h
        \<and> edge_propagate g (h ! label) value steps = Inl e)"
proof (cases steps)
  case None
  then show ?thesis by (simp add: edge_propagate_heap_def np_array_def edge_propagate_def)
next
  case (Some n)
  have "length h < length (h @ [h ! label])" by simp
  from propagate_rounds_heap_refines [OF this, of g "nat n" "value"] Some
  show ?thesis
    by (simp add: edge_propagate_heap_def np_array_def edge_propagate_def split: outcome.splits)
qed

theorem edge_propagate_heap_copies_witness:
  "edge_propagate_heap packed_graph [[False, False, True, False]] 0 True (Some 1) =
     Return 1 [[False, False, True, False], [False, False, True, True]] \<and>
   edge_propagate_heap packed_graph [[False, False, True, False]] 0 True None =
     Return 1 [[False, False, True, False], [False, False, True, False]]"
  using edge_propagate_heap_copies [of "[[False, False, True, False]]" packed_graph 0 True
      "Some 1"]
  unfolding packed_graph_eq
  by (simp add: edge_propagate_heap_def np_array_def propagate_round_heap_def
      propagate_vertices_def edge_connectivity_def filter_mask_def vertex_edges_iterator_def
      setitem_def Let_def)

section \<open>The packing law\<close>

lemma zip_shift_Cons:
  "zip (acc # butlast (cumsum_from acc (d # ds))) (cumsum_from acc (d # ds)) =
     (acc, acc + d) # zip ((acc + d) # butlast (cumsum_from (acc + d) ds))
                          (cumsum_from (acc + d) ds)"
  by (cases "cumsum_from (acc + d) ds") simp_all

lemma cumsum_from_nth:
  "i < length ls \<Longrightarrow> cumsum_from acc ls ! i = acc + sum_list (take (Suc i) ls)"
proof (induction ls arbitrary: acc i)
  case Nil
  then show ?case by simp
next
  case (Cons x xs)
  show ?case
  proof (cases i)
    case 0
    then show ?thesis by simp
  next
    case (Suc k)
    with Cons.prems have "k < length xs" by simp
    from Cons.IH [OF this, of "acc + x"] Suc show ?thesis by simp
  qed
qed

lemma zip_shift_nth:
  "i < length ls \<Longrightarrow>
   zip (acc # butlast (cumsum_from acc ls)) (cumsum_from acc ls) ! i =
     (acc + sum_list (take i ls), acc + sum_list (take (Suc i) ls))"
proof (induction ls arbitrary: acc i)
  case Nil
  then show ?case by simp
next
  case (Cons x xs)
  show ?case
  proof (cases i)
    case 0
    then show ?thesis unfolding zip_shift_Cons by simp
  next
    case (Suc k)
    with Cons.prems have "k < length xs" by simp
    from Cons.IH [OF this, of "acc + x"] Suc show ?thesis
      unfolding zip_shift_Cons by simp
  qed
qed

lemma length_zip_shift [simp]:
  "length (zip (acc # butlast (cumsum_from acc ls)) (cumsum_from acc ls)) = length ls"
  by (cases "cumsum_from acc ls" rule: rev_cases) (simp_all flip: length_cumsum_from [of acc ls])

lemma compute_ranges_length: "compute_ranges ls = Inr r \<Longrightarrow> length r = length ls"
  by (auto simp: compute_ranges_def cumsum_def Let_def split: if_splits)

lemma compute_ranges_nth:
  "compute_ranges ls = Inr r \<Longrightarrow> i < length ls \<Longrightarrow>
   r ! i = (sum_list (take i ls), sum_list (take (Suc i) ls))"
  using zip_shift_nth [of i ls 0]
  by (auto simp: compute_ranges_def cumsum_def Let_def split: if_splits)

lemma compute_ranges_last:
  "compute_ranges ls = Inr r \<Longrightarrow> r \<noteq> [] \<and> snd (last r) = sum_list ls"
proof -
  assume a: "compute_ranges ls = Inr r"
  then have ne: "ls \<noteq> []" by (auto simp: compute_ranges_empty)
  have l: "length r = length ls" by (rule compute_ranges_length [OF a])
  then have rne: "r \<noteq> []" using ne by auto
  have "last r = r ! (length ls - 1)" using rne l by (simp add: last_conv_nth)
  also have "\<dots> = (sum_list (take (length ls - 1) ls), sum_list (take (Suc (length ls - 1)) ls))"
    using ne by (intro compute_ranges_nth [OF a]) simp
  finally show ?thesis using rne ne by simp
qed





text \<open>
  An empty list of arrays has no ranges: \<open>np.cumsum\<close> of no lengths leaves
  \<open>np.array([indices[:-1], indices[1:]])\<close> over a single zero and the transpose of
  nothing, which the model reports as the \<open>ValueError\<close> of \<open>compute_ranges\<close>.
\<close>

lemma packed_set_empty_list_raises:
  "edge_geometry_type g = Inr (PStr ''graph'') \<Longrightarrow>
   set_edge_geometry E g name (PList []) None None = Raise ValueError g"
  by (simp add: set_edge_geometry_def set_edge_geometry_graph_def compute_ranges_empty)




section \<open>Compaction of the packed geometry in a sub-graph\<close>

lemma py_slice_valid:
  assumes "valid_range (length xs) r"
  shows "py_slice xs (fst r) (snd r) = take (nat (snd r - fst r)) (drop (nat (fst r)) xs)"
    and "length (py_slice xs (fst r) (snd r)) = nat (snd r - fst r)"
proof -
  have a: "slice_bound (length xs) (fst r) = nat (fst r)"
    using assms by (auto simp: slice_bound_def valid_range_def)
  have b: "slice_bound (length xs) (snd r) = nat (snd r)"
    using assms by (auto simp: slice_bound_def valid_range_def)
  have c: "nat (snd r) - nat (fst r) = nat (snd r - fst r)"
    using assms by (auto simp: valid_range_def)
  show "py_slice xs (fst r) (snd r) = take (nat (snd r - fst r)) (drop (nat (fst r)) xs)"
    by (simp add: py_slice_def a b c)
  then show "length (py_slice xs (fst r) (snd r)) = nat (snd r - fst r)"
    using assms by (auto simp: valid_range_def)
qed

lemma assign_slice_at:
  assumes "0 \<le> acc" "length pre = nat acc" "length v \<le> length zs"
  shows "assign_slice (pre @ zs) (acc, acc + int (length v)) v =
           Inr (pre @ v @ drop (length v) zs)"
proof -
  have a: "slice_bound (length (pre @ zs)) acc = length pre"
    using assms by (simp add: slice_bound_def)
  have b: "slice_bound (length (pre @ zs)) (acc + int (length v)) = length pre + length v"
    using assms by (simp add: slice_bound_def nat_add_distrib)
  show ?thesis
    unfolding assign_slice_def Let_def fst_conv snd_conv a b by simp
qed

lemma sum_diff_nonneg:
  "\<forall>r \<in> set rs. valid_range n r \<Longrightarrow> 0 \<le> sum_list (diff_ranges rs)"
  by (induction rs) (auto simp: diff_ranges_def valid_range_def case_prod_unfold)

lemma copy_ranges_concat:
  assumes "\<forall>r \<in> set rs. valid_range (length src) r"
    and "0 \<le> acc" and "length pre = nat acc"
    and "nat (sum_list (diff_ranges rs)) \<le> length zs"
  shows "copy_ranges src (pre @ zs)
           (zip rs (zip (acc # butlast (cumsum_from acc (diff_ranges rs)))
                        (cumsum_from acc (diff_ranges rs)))) =
         Return () (pre @ concat (map (\<lambda>r. py_slice src (fst r) (snd r)) rs)
                      @ drop (nat (sum_list (diff_ranges rs))) zs)"
  using assms
proof (induction rs arbitrary: acc pre zs)
  case Nil
  then show ?case by (simp add: diff_ranges_def)
next
  case (Cons r rs)
  let ?d = "snd r - fst r"
  let ?v = "py_slice src (fst r) (snd r)"
  have vr: "valid_range (length src) r" using Cons.prems(1) by simp
  have rest: "\<forall>r \<in> set rs. valid_range (length src) r" using Cons.prems(1) by simp
  have d0: "0 \<le> ?d" using vr by (simp add: valid_range_def)
  have lv: "length ?v = nat ?d" by (rule py_slice_valid(2) [OF vr])
  have s0: "0 \<le> sum_list (diff_ranges rs)" by (rule sum_diff_nonneg [OF rest])
  have dr: "diff_ranges (r # rs) = ?d # diff_ranges rs"
    by (simp add: diff_ranges_def case_prod_unfold)
  have tot: "nat (sum_list (diff_ranges (r # rs))) = nat ?d + nat (sum_list (diff_ranges rs))"
    using d0 s0 by (simp add: dr nat_add_distrib)
  have le: "length ?v \<le> length zs" using Cons.prems(4) tot lv by simp
  have new: "acc + ?d = acc + int (length ?v)" using lv d0 by simp
  have as: "assign_slice (pre @ zs) (acc, acc + ?d) ?v = Inr (pre @ ?v @ drop (length ?v) zs)"
    unfolding new by (rule assign_slice_at [OF Cons.prems(2,3) le])
  have i1: "0 \<le> acc + ?d" using Cons.prems(2) d0 by simp
  have i2: "length (pre @ ?v) = nat (acc + ?d)"
    using Cons.prems(2,3) lv d0 by (simp add: nat_add_distrib)
  have i3: "nat (sum_list (diff_ranges rs)) \<le> length (drop (length ?v) zs)"
    using Cons.prems(4) tot lv by simp
  have ih: "copy_ranges src ((pre @ ?v) @ drop (length ?v) zs)
           (zip rs (zip ((acc + ?d) # butlast (cumsum_from (acc + ?d) (diff_ranges rs)))
                        (cumsum_from (acc + ?d) (diff_ranges rs)))) =
         Return () ((pre @ ?v) @ concat (map (\<lambda>r. py_slice src (fst r) (snd r)) rs)
                      @ drop (nat (sum_list (diff_ranges rs))) (drop (length ?v) zs))"
    by (rule Cons.IH [OF rest i1 i2 i3])
  show ?case
    unfolding dr zip_shift_Cons
    using as ih tot lv d0 s0 by (simp add: add.commute nat_add_distrib)
qed

lemma agree_of_diff:
  "diff_ranges a = diff_ranges b \<Longrightarrow> range_lengths_agree a b"
proof (induction a arbitrary: b)
  case Nil
  then show ?case by (simp add: range_lengths_agree_def)
next
  case (Cons x xs)
  then obtain y ys where b: "b = y # ys" by (cases b) (auto simp: diff_ranges_def)
  with Cons.prems have "diff_ranges xs = diff_ranges ys" "snd x - fst x = snd y - fst y"
    by (auto simp: diff_ranges_def case_prod_unfold)
  with Cons.IH [of ys] b show ?case
    by (simp add: range_lengths_agree_def case_prod_unfold)
qed

lemma remap_items_compacts:
  assumes valid: "\<forall>r \<in> set rs. valid_range (length src) r"
    and new: "compute_ranges (diff_ranges rs) = Inr new"
  shows "remap_items (snd (last new)) z src rs new =
           Inr (concat (map (\<lambda>r. py_slice src (fst r) (snd r)) rs))"
proof -
  let ?n = "sum_list (diff_ranges rs)"
  have n: "snd (last new) = ?n" using compute_ranges_last [OF new] by simp
  have n0: "0 \<le> ?n" by (rule sum_diff_nonneg [OF valid])
  have ag: "range_lengths_agree rs new"
    by (rule agree_of_diff) (simp add: compute_ranges_diff [OF new])
  have nw: "new = zip (0 # butlast (cumsum_from 0 (diff_ranges rs)))
                      (cumsum_from 0 (diff_ranges rs))"
    using new by (auto simp: compute_ranges_def cumsum_def Let_def split: if_splits)
  have "copy_ranges src ([] @ replicate (nat ?n) z)
           (zip rs (zip (0 # butlast (cumsum_from 0 (diff_ranges rs)))
                        (cumsum_from 0 (diff_ranges rs)))) =
         Return () ([] @ concat (map (\<lambda>r. py_slice src (fst r) (snd r)) rs)
                      @ drop (nat ?n) (replicate (nat ?n) z))"
    by (rule copy_ranges_concat [OF valid]) simp_all
  then show ?thesis
    using n0 ag by (simp add: remap_items_def remap_array_ranges_def n nw [symmetric])
qed

lemma slice_concat_nth:
  assumes "j < length xss"
  shows "py_slice (concat xss) (int (length (concat (take j xss))))
           (int (length (concat (take (Suc j) xss)))) = xss ! j"
proof -
  have split: "concat xss = concat (take j xss) @ xss ! j @ concat (drop (Suc j) xss)"
    using id_take_nth_drop [OF assms] by (metis concat.simps(2) concat_append)
  have l2: "length (concat (take (Suc j) xss)) = length (concat (take j xss)) + length (xss ! j)"
    using assms by (simp add: take_Suc_conv_app_nth)
  have "length (concat xss) =
      length (concat (take j xss)) + length (xss ! j) + length (concat (drop (Suc j) xss))"
    using arg_cong [OF split, of length] by simp
  then have le: "length (concat (take (Suc j) xss)) \<le> length (concat xss)"
    using l2 by simp
  have a: "slice_bound (length (concat xss)) (int (length (concat (take j xss)))) =
        length (concat (take j xss))"
    using le l2 by (simp add: slice_bound_def)
  have b: "slice_bound (length (concat xss)) (int (length (concat (take (Suc j) xss)))) =
        length (concat (take (Suc j) xss))"
    using le by (simp add: slice_bound_def)
  have "py_slice (concat xss) (int (length (concat (take j xss))))
           (int (length (concat (take (Suc j) xss)))) =
        take (length (xss ! j)) (drop (length (concat (take j xss))) (concat xss))"
    unfolding py_slice_def Let_def a b by (simp only: l2 diff_add_inverse)
  also have "\<dots> = xss ! j" by (subst split) simp
  finally show ?thesis .
qed


lemma length_concat_slices:
  "\<forall>r \<in> set rs. valid_range (length src) r \<Longrightarrow>
   int (length (concat (map (\<lambda>r. py_slice src (fst r) (snd r)) rs))) = sum_list (diff_ranges rs)"
proof (induction rs)
  case Nil
  show ?case by (simp add: diff_ranges_def)
next
  case (Cons r rs)
  have vr: "valid_range (length src) r" using Cons.prems by simp
  have "0 \<le> snd r - fst r" using vr by (simp add: valid_range_def)
  with Cons py_slice_valid(2) [OF vr] show ?case
    by (simp add: diff_ranges_def case_prod_unfold)
qed

lemma remap_slices:
  assumes valid: "\<forall>r \<in> set rs. valid_range (length src) r"
    and new: "compute_ranges (diff_ranges rs) = Inr new"
    and j: "j < length rs"
  shows "py_slice (concat (map (\<lambda>r. py_slice src (fst r) (snd r)) rs))
           (fst (new ! j)) (snd (new ! j)) = py_slice src (fst (rs ! j)) (snd (rs ! j))"
proof -
  let ?f = "\<lambda>r. py_slice src (fst r) (snd r)"
  have jd: "j < length (diff_ranges rs)" using j by (simp add: diff_ranges_def)
  have nj: "new ! j = (sum_list (take j (diff_ranges rs)), sum_list (take (Suc j) (diff_ranges rs)))"
    by (rule compute_ranges_nth [OF new jd])
  have pre: "\<And>k. int (length (concat (take k (map ?f rs)))) = sum_list (take k (diff_ranges rs))"
  proof -
    fix k
    have "\<forall>r \<in> set (take k rs). valid_range (length src) r"
      using valid by (meson in_set_takeD)
    from length_concat_slices [OF this] show
      "int (length (concat (take k (map ?f rs)))) = sum_list (take k (diff_ranges rs))"
      by (simp add: take_map diff_ranges_def)
  qed
  have "py_slice (concat (map ?f rs)) (int (length (concat (take j (map ?f rs)))))
           (int (length (concat (take (Suc j) (map ?f rs))))) = map ?f rs ! j"
    by (rule slice_concat_nth) (simp add: j)
  then show ?thesis using j by (simp add: pre nj)
qed

lemma filter_mask_map: "filter_mask m (map f xs) = map f (filter_mask m xs)"
proof (induction xs arbitrary: m)
  case Nil
  show ?case by (simp add: filter_mask_def)
next
  case (Cons x xs)
  show ?case
  proof (cases m)
    case Nil
    then show ?thesis by (simp add: filter_mask_def)
  next
    case (Cons k ks)
    with Cons.IH [of ks] show ?thesis by (simp add: filter_mask_def)
  qed
qed

lemma set_filter_mask_subset: "set (filter_mask m xs) \<subseteq> set xs"
  by (auto simp: filter_mask_def dest: set_zip_rightD)

lemma length_filter_mask:
  "length m = length xs \<Longrightarrow> length (filter_mask m xs) = length (filter id m)"
proof (induction xs arbitrary: m)
  case Nil
  then show ?case by (simp add: filter_mask_def)
next
  case (Cons x xs)
  then obtain k ks where m: "m = k # ks" by (cases m) auto
  with Cons.prems have "length ks = length xs" by simp
  from Cons.IH [OF this] m show ?case by (simp add: filter_mask_def)
qed

lemma filter_mask_nonempty:
  "length m = length xs \<Longrightarrow> True \<in> set m \<Longrightarrow> filter_mask m xs \<noteq> []"
proof -
  assume l: "length m = length xs" and t: "True \<in> set m"
  have "filter id m \<noteq> []" using t by (auto simp: filter_empty_conv)
  then show ?thesis using length_filter_mask [OF l] by (metis length_0_conv)
qed

lemma remap_property_array:
  assumes valid: "\<forall>r \<in> set rs. valid_range (len a) r"
    and new: "compute_ranges (diff_ranges rs) = Inr new"
  shows "\<exists>a'. remap_property (snd (last new)) rs new (PArray a) = Inr (PArray a') \<and>
     int (len a') = sum_list (diff_ranges rs) \<and>
     (\<forall>j < length rs. arr_slice a' (new ! j) = arr_slice a (rs ! j))"
proof (cases a)
  case (Arr1 xs)
  let ?ys = "concat (map (\<lambda>r. py_slice xs (fst r) (snd r)) rs)"
  have v: "\<forall>r \<in> set rs. valid_range (length xs) r" using valid Arr1 by simp
  have r: "remap_property (snd (last new)) rs new (PArray a) = Inr (PArray (Arr1 ?ys))"
    using remap_items_compacts [OF v new, of 0] by (simp add: remap_property_def Arr1)
  have l: "int (len (Arr1 ?ys)) = sum_list (diff_ranges rs)"
    using length_concat_slices [OF v] by simp
  have s: "\<forall>j < length rs. arr_slice (Arr1 ?ys) (new ! j) = arr_slice a (rs ! j)"
  proof (intro allI impI)
    fix j assume j: "j < length rs"
    from remap_slices [OF v new j]
    show "arr_slice (Arr1 ?ys) (new ! j) = arr_slice a (rs ! j)"
      by (cases "new ! j"; cases "rs ! j") (simp add: Arr1)
  qed
  from r l s show ?thesis by blast
next
  case (Arr2 d rows)
  let ?ys = "concat (map (\<lambda>r. py_slice rows (fst r) (snd r)) rs)"
  have v: "\<forall>r \<in> set rs. valid_range (length rows) r" using valid Arr2 by simp
  have r: "remap_property (snd (last new)) rs new (PArray a) = Inr (PArray (Arr2 d ?ys))"
    using remap_items_compacts [OF v new, of "replicate d 0"]
    by (simp add: remap_property_def Arr2)
  have l: "int (len (Arr2 d ?ys)) = sum_list (diff_ranges rs)"
    using length_concat_slices [OF v] by simp
  have s: "\<forall>j < length rs. arr_slice (Arr2 d ?ys) (new ! j) = arr_slice a (rs ! j)"
  proof (intro allI impI)
    fix j assume j: "j < length rs"
    from remap_slices [OF v new j]
    show "arr_slice (Arr2 d ?ys) (new ! j) = arr_slice a (rs ! j)"
      by (cases "new ! j"; cases "rs ! j") (simp add: Arr2)
  qed
  from r l s show ?thesis by blast
qed

lemma set_graph_property_value:
  "map_of (gp (base g)) name = Some v \<Longrightarrow> src \<noteq> PNone \<Longrightarrow>
   set_graph_property g name src =
     Return () (invalidate_caches
       (g\<lparr>base := (base g)\<lparr>gp := AList.update name src (gp (base g))\<rparr>\<rparr>))"
  by (simp add: set_graph_property_def graph_properties_def weak_map_of_SomeI
      map_of_eq_None_iff [symmetric] del: map_of_eq_None_iff)

lemma reduce_loop_maps:
  assumes "distinct names"
    and "\<forall>p \<in> set names. \<exists>v v'. map_of (gp (base g)) p = Some v
           \<and> remap_property n old new v = Inr v' \<and> v' \<noteq> PNone"
  shows "\<exists>g'. reduce_loop n old new names g = Return () g' \<and>
     ep (base g') = ep (base g) \<and> edge_list (base g') = edge_list (base g) \<and>
     map fst (gp (base g')) = map fst (gp (base g)) \<and>
     (\<forall>p. p \<notin> set names \<longrightarrow> map_of (gp (base g')) p = map_of (gp (base g)) p) \<and>
     (\<forall>p \<in> set names. \<forall>v v'. map_of (gp (base g)) p = Some v \<longrightarrow>
         remap_property n old new v = Inr v' \<longrightarrow> map_of (gp (base g')) p = Some v')"
  using assms
proof (induction names arbitrary: g)
  case Nil
  show ?case by simp
next
  case (Cons name rest)
  obtain v v' where v: "map_of (gp (base g)) name = Some v"
      "remap_property n old new v = Inr v'" "v' \<noteq> PNone"
    using Cons.prems(2) by auto
  let ?g1 = "invalidate_caches
       (g\<lparr>base := (base g)\<lparr>gp := AList.update name v' (gp (base g))\<rparr>\<rparr>)"
  have sg: "set_graph_property g name v' = Return () ?g1"
    by (rule set_graph_property_value [OF v(1,3)])
  have m1: "\<And>p. map_of (gp (base ?g1)) p = (if p = name then Some v' else map_of (gp (base g)) p)"
    by (simp add: invalidate_caches_def update_conv')
  have k1: "map fst (gp (base ?g1)) = map fst (gp (base g))"
    using v(1) by (simp add: invalidate_caches_def update_keys weak_map_of_SomeI
        map_of_eq_None_iff [symmetric] del: map_of_eq_None_iff)
  have d: "distinct rest" "name \<notin> set rest" using Cons.prems(1) by simp_all
  have pre: "\<forall>p \<in> set rest. \<exists>v v'. map_of (gp (base ?g1)) p = Some v
           \<and> remap_property n old new v = Inr v' \<and> v' \<noteq> PNone"
    using Cons.prems(2) d(2) by (auto simp: m1)
  from Cons.IH [OF d(1) pre] obtain g' where g':
    "reduce_loop n old new rest ?g1 = Return () g'"
    "ep (base g') = ep (base ?g1)" "edge_list (base g') = edge_list (base ?g1)"
    "map fst (gp (base g')) = map fst (gp (base ?g1))"
    "\<forall>p. p \<notin> set rest \<longrightarrow> map_of (gp (base g')) p = map_of (gp (base ?g1)) p"
    "\<forall>p \<in> set rest. \<forall>v v'. map_of (gp (base ?g1)) p = Some v \<longrightarrow>
         remap_property n old new v = Inr v' \<longrightarrow> map_of (gp (base g')) p = Some v'"
    by blast
  have run: "reduce_loop n old new (name # rest) g = Return () g'"
    using v sg g'(1) by (simp add: graph_property_def lookup_def)
  have e: "ep (base g') = ep (base g)" "edge_list (base g') = edge_list (base g)"
    using g'(2,3) by (simp_all add: invalidate_caches_def)
  have k: "map fst (gp (base g')) = map fst (gp (base g))" using g'(4) k1 by simp
  have out: "\<forall>p. p \<notin> set (name # rest) \<longrightarrow> map_of (gp (base g')) p = map_of (gp (base g)) p"
    using g'(5) by (simp add: m1)
  have inn: "\<forall>p \<in> set (name # rest). \<forall>w w'. map_of (gp (base g)) p = Some w \<longrightarrow>
         remap_property n old new w = Inr w' \<longrightarrow> map_of (gp (base g')) p = Some w'"
  proof (intro ballI allI impI)
    fix p w w'
    assume p: "p \<in> set (name # rest)" and w: "map_of (gp (base g)) p = Some w"
      and w': "remap_property n old new w = Inr w'"
    show "map_of (gp (base g')) p = Some w'"
    proof (cases "p = name")
      case True
      then have "map_of (gp (base g')) p = Some v'" using g'(5) d(2) by (simp add: m1)
      moreover have "w' = v'" using True w w' v by simp
      ultimately show ?thesis by simp
    next
      case False
      then have pr: "p \<in> set rest" using p by simp
      have "map_of (gp (base ?g1)) p = Some w" using False w by (simp add: m1)
      with g'(6) pr w' show ?thesis by blast
    qed
  qed
  show ?case using run e k out inn by blast
qed

lemma length_visible_edges:
  "length (visible_edges (b, vm, replicate (length (edge_list b)) True)) = length (edge_list b)"
  by (simp add: visible_edges_def)

lemma names_of_gp:
  assumes "gp (base g') = gp (base g)" and "edge_geometry_type g = Inr (PStr ''graph'')"
  shows "edge_geometry_type g' = Inr (PStr ''graph'')"
    and "edge_geometry_property_names g' = edge_geometry_property_names g"
proof -
  show t: "edge_geometry_type g' = Inr (PStr ''graph'')"
    using assms(2) by (simp add: edge_geometry_type_def graph_property_def assms(1))
  show "edge_geometry_property_names g' = edge_geometry_property_names g"
    by (simp add: edge_geometry_property_names_def t assms graph_properties_def Let_def)
qed

lemma packed_names:
  assumes "edge_geometry_type g = Inr (PStr ''graph'')"
  shows "edge_geometry_property_names g =
     Inr (filter (\<lambda>p. startswith p (edge_geometry_property_name []) \<and> p \<noteq> ''edge_geometry_type'')
            (graph_properties g))"
  by (simp add: edge_geometry_property_names_def assms Let_def)

text \<open>
  When the filter keeps no edge, the pruned graph has no index range left and
  \<open>resize_edge_geometry\<close> raises while it builds the compacted ranges from an empty
  cumulative sum.
\<close>

lemma filter_mask_all_False: "True \<notin> set m \<Longrightarrow> filter_mask m xs = []"
  by (auto simp: filter_mask_def filter_empty_conv dest: set_zip_leftD)

lemma sub_graph_without_surviving_edge_raises:
  assumes type: "edge_geometry_type g = Inr (PStr ''graph'')"
    and idx: "edge_geometry_indices_graph E g None = Inr (PRanges indices)"
    and coords: "has_edge_geometry g ''coordinates'' = Inr True"
    and V: "length V = n_vertices g"
    and none: "True \<notin> set (visible_edges (base g, V, replicate (n_edges g) True))"
  shows "sub_graph E g (Some V) None False = Inl ValueError"
proof -
  let ?b = "base g"
  let ?gv = "(?b, V, replicate (length (edge_list ?b)) True)"
  let ?keep = "visible_edges ?gv"
  let ?g0 = "Graph_of_base (Graph_prune ?gv) :: ('a, 'b) graph"
  have GV: "GraphView ?b (Some V) None = Inr ?gv"
    using V by (simp add: GraphView_def n_vertices_def)
  have gp0: "gp (base ?g0) = gp ?b"
    by (simp add: Graph_of_base_def Graph_prune_def Let_def)
  have ep0: "ep (base ?g0) = map (\<lambda>(k, v). (k, prune_pyval ?keep v)) (ep ?b)"
    by (simp add: Graph_of_base_def Graph_prune_def Let_def)
  have mi: "map_of (ep ?b) edge_geometry_indices_name_graph = Some (PRanges indices)"
    using idx
    by (auto simp: edge_geometry_indices_graph_def edge_property_def lookup_def
        property_map_to_python_def split: option.splits)
  have e: "filter_mask ?keep indices = []"
    using none by (intro filter_mask_all_False) (simp add: n_edges_def)
  have idx0: "edge_geometry_indices_graph E ?g0 None = Inr (PRanges [])"
    by (simp add: edge_geometry_indices_graph_def edge_property_def lookup_def
        property_map_to_python_def ep0 map_of_map mi prune_pyval_def e)
  have type0: "edge_geometry_type ?g0 = Inr (PStr ''graph'')"
    by (rule names_of_gp(1) [OF gp0 type])
  have has0: "has_edge_geometry ?g0 ''coordinates'' = Inr True"
    using coords names_of_gp(2) [OF gp0 type] by (simp add: has_edge_geometry_def)
  have "resize_edge_geometry E ?g0 = Raise ValueError ?g0"
    using has0 type0 idx0
    by (simp add: resize_edge_geometry_def as_ranges_def resize_indices_def diff_ranges_def
        compute_ranges_empty)
  then show ?thesis using GV by (simp add: sub_graph_def)
qed

text \<open>
  C4. Let \<open>g\<close> be in packed mode, with an index range for every edge, a \<open>coordinates\<close>
  geometry, and every range inside every packed geometry array; let the vertex filter
  \<open>V\<close> keep at least one edge. Then \<open>sub_graph\<close> with \<open>view = False\<close> returns an independent
  graph whose index ranges are the compact ranges of the surviving edges' lengths, and in
  which every packed geometry array is as long as the surviving edges' sample counts add
  up to and holds, in the range of each surviving edge, the samples that the edge had.
\<close>

theorem sub_graph_compacts_geometry:
  assumes type: "edge_geometry_type g = Inr (PStr ''graph'')"
    and idx: "edge_geometry_indices_graph E g None = Inr (PRanges indices)"
    and len: "length indices = n_edges g"
    and names: "edge_geometry_property_names g = Inr names"
    and coords: "edge_geometry_property_name ''coordinates'' \<in> set names"
    and dist: "distinct (graph_properties g)"
    and geom: "\<forall>name \<in> set names. \<exists>a. graph_property g name = Inr (PArray a)
                 \<and> (\<forall>r \<in> set indices. valid_range (len a) r)"
    and V: "length V = n_vertices g"
    and keep: "keep = visible_edges (base g, V, replicate (n_edges g) True)"
    and some: "True \<in> set keep"
  shows "\<exists>g' indices'.
     sub_graph E g (Some V) None False = Inr (Owned g') \<and>
     edge_geometry_indices_graph E g' None = Inr (PRanges indices') \<and>
     compute_ranges (filter_mask keep (diff_ranges indices)) = Inr indices' \<and>
     length indices' = n_edges g' \<and>
     edge_geometry_property_names g' = Inr names \<and>
     (\<forall>name \<in> set names. \<exists>a a'.
         graph_property g name = Inr (PArray a) \<and>
         graph_property g' name = Inr (PArray a') \<and>
         int (len a') = sum_list (filter_mask keep (diff_ranges indices)) \<and>
         (\<forall>j < length indices'.
            arr_slice a' (indices' ! j) = arr_slice a (filter_mask keep indices ! j)))"
proof -
  let ?b = "base g"
  let ?gv = "(?b, V, replicate (length (edge_list ?b)) True)"
  let ?b' = "Graph_prune ?gv"
  let ?g0 = "Graph_of_base ?b' :: ('a, 'b) graph"
  let ?iname = "edge_geometry_indices_name_graph"
  let ?surv = "filter_mask keep indices"
  have keep': "keep = visible_edges ?gv" using keep by (simp add: n_edges_def)
  have GV: "GraphView ?b (Some V) None = Inr ?gv"
    using V by (simp add: GraphView_def n_vertices_def)
  have lk: "length keep = length indices"
    using len by (simp add: keep' length_visible_edges n_edges_def)
  have lke: "length keep = length (edge_list ?b)"
    by (simp add: keep' length_visible_edges)
  have gp0: "gp (base ?g0) = gp ?b"
    by (simp add: Graph_of_base_def Graph_prune_def Let_def)
  have ep0: "ep (base ?g0) = map (\<lambda>(k, v). (k, prune_pyval keep v)) (ep ?b)"
    by (simp add: Graph_of_base_def Graph_prune_def Let_def keep')
  have el0: "length (edge_list (base ?g0)) = length (filter id keep)"
    using length_filter_mask [OF lke]
    by (simp add: Graph_of_base_def Graph_prune_def Let_def keep' [symmetric])
  have mi: "map_of (ep ?b) ?iname = Some (PRanges indices)"
    using idx
    by (auto simp: edge_geometry_indices_graph_def edge_property_def lookup_def
        property_map_to_python_def split: option.splits)
  have mi0: "map_of (ep (base ?g0)) ?iname = Some (PRanges ?surv)"
    by (simp add: ep0 map_of_map mi prune_pyval_def)
  have type0: "edge_geometry_type ?g0 = Inr (PStr ''graph'')"
    by (rule names_of_gp(1) [OF gp0 type])
  have names0: "edge_geometry_property_names ?g0 = Inr names"
    using names_of_gp(2) [OF gp0 type] names by simp
  have has0: "has_edge_geometry ?g0 ''coordinates'' = Inr True"
    using names0 coords by (simp add: has_edge_geometry_def)
  have idx0: "edge_geometry_indices_graph E ?g0 None = Inr (PRanges ?surv)"
    using mi0
    by (simp add: edge_geometry_indices_graph_def edge_property_def lookup_def
        property_map_to_python_def)
  have sne: "?surv \<noteq> []" by (rule filter_mask_nonempty [OF lk some])
  have ds: "diff_ranges ?surv = filter_mask keep (diff_ranges indices)"
    by (simp add: diff_ranges_def filter_mask_map)
  have "diff_ranges ?surv \<noteq> []" using sne by (simp add: diff_ranges_def)
  then obtain new where new: "compute_ranges (diff_ranges ?surv) = Inr new"
    using compute_ranges_nonempty by blast
  have nne: "new \<noteq> []" using compute_ranges_last [OF new] by simp
  have ln: "length new = length ?surv"
    using compute_ranges_length [OF new] by (simp add: diff_ranges_def)
  let ?g1 = "invalidate_caches
       (?g0\<lparr>base := (base ?g0)\<lparr>ep := AList.update ?iname (PRanges new) (ep (base ?g0))\<rparr>\<rparr>)"
  have set1: "set_edge_geometry_indices_graph E ?g0 (PRanges new) None = Return () ?g1"
    using mi0
    by (simp add: set_edge_geometry_indices_graph_def set_edge_property_def
        set_property_map_def)
  have gp1: "gp (base ?g1) = gp ?b" using gp0 by (simp add: invalidate_caches_def)
  have names1: "edge_geometry_property_names ?g1 = Inr names"
    using names_of_gp(2) [OF gp1 type] names by simp
  have nm: "names = filter (\<lambda>p. startswith p (edge_geometry_property_name [])
                \<and> p \<noteq> ''edge_geometry_type'') (graph_properties g)"
    using packed_names [OF type] names by simp
  have dn: "distinct names" unfolding nm using dist by simp
  have tn: "''edge_geometry_type'' \<notin> set names" unfolding nm by simp
  have vs: "\<And>a. \<forall>r \<in> set indices. valid_range (len a) r \<Longrightarrow>
      \<forall>r \<in> set ?surv. valid_range (len a) r"
    using set_filter_mask_subset [of keep indices] by blast
  have pre: "\<forall>p \<in> set names. \<exists>v v'. map_of (gp (base ?g1)) p = Some v
           \<and> remap_property (snd (last new)) ?surv new v = Inr v' \<and> v' \<noteq> PNone"
  proof
    fix p assume p: "p \<in> set names"
    from geom p obtain a where a: "graph_property g p = Inr (PArray a)"
      "\<forall>r \<in> set indices. valid_range (len a) r" by blast
    have m: "map_of (gp (base ?g1)) p = Some (PArray a)"
      using a(1) by (auto simp: gp1 graph_property_def lookup_def split: option.splits)
    from remap_property_array [OF vs [OF a(2)] new] obtain a' where
      "remap_property (snd (last new)) ?surv new (PArray a) = Inr (PArray a')" by blast
    with m show "\<exists>v v'. map_of (gp (base ?g1)) p = Some v
           \<and> remap_property (snd (last new)) ?surv new v = Inr v' \<and> v' \<noteq> PNone" by blast
  qed
  from reduce_loop_maps [OF dn pre] obtain g' where g':
    "reduce_loop (snd (last new)) ?surv new names ?g1 = Return () g'"
    "ep (base g') = ep (base ?g1)" "edge_list (base g') = edge_list (base ?g1)"
    "map fst (gp (base g')) = map fst (gp (base ?g1))"
    "\<forall>p. p \<notin> set names \<longrightarrow> map_of (gp (base g')) p = map_of (gp (base ?g1)) p"
    "\<forall>p \<in> set names. \<forall>v v'. map_of (gp (base ?g1)) p = Some v \<longrightarrow>
         remap_property (snd (last new)) ?surv new v = Inr v' \<longrightarrow>
         map_of (gp (base g')) p = Some v'"
    by blast
  have red: "reduce_edge_geometry_properties ?g1 ?surv new = Return () g'"
    using nne names1 g'(1) by (simp add: reduce_edge_geometry_properties_def Let_def)
  have rs: "resize_edge_geometry E ?g0 = Return () g'"
    using has0 type0 idx0 new set1 red
    by (simp add: resize_edge_geometry_def as_ranges_def resize_indices_def)
  have sub: "sub_graph E g (Some V) None False = Inr (Owned g')"
    using GV rs by (simp add: sub_graph_def)
  have idx': "edge_geometry_indices_graph E g' None = Inr (PRanges new)"
    by (simp add: edge_geometry_indices_graph_def edge_property_def lookup_def g'(2)
        invalidate_caches_def update_conv' property_map_to_python_def)
  have cr: "compute_ranges (filter_mask keep (diff_ranges indices)) = Inr new"
    using new ds by simp
  have ne': "length new = n_edges g'"
    using ln length_filter_mask [OF lk] el0
    by (simp add: n_edges_def g'(3) invalidate_caches_def)
  have type': "edge_geometry_type g' = Inr (PStr ''graph'')"
    using type g'(5) tn
    by (simp add: edge_geometry_type_def graph_property_def lookup_def gp1)
  have names': "edge_geometry_property_names g' = Inr names"
    unfolding packed_names [OF type'] nm
    by (simp add: graph_properties_def g'(4) gp1)
  have arrays: "\<forall>name \<in> set names. \<exists>a a'.
         graph_property g name = Inr (PArray a) \<and>
         graph_property g' name = Inr (PArray a') \<and>
         int (len a') = sum_list (filter_mask keep (diff_ranges indices)) \<and>
         (\<forall>j < length new.
            arr_slice a' (new ! j) = arr_slice a (filter_mask keep indices ! j))"
  proof
    fix p assume p: "p \<in> set names"
    from geom p obtain a where a: "graph_property g p = Inr (PArray a)"
      "\<forall>r \<in> set indices. valid_range (len a) r" by blast
    have m: "map_of (gp (base ?g1)) p = Some (PArray a)"
      using a(1) by (auto simp: gp1 graph_property_def lookup_def split: option.splits)
    from remap_property_array [OF vs [OF a(2)] new] obtain a' where a':
      "remap_property (snd (last new)) ?surv new (PArray a) = Inr (PArray a')"
      "int (len a') = sum_list (diff_ranges ?surv)"
      "\<forall>j < length ?surv. arr_slice a' (new ! j) = arr_slice a (?surv ! j)" by blast
    have "map_of (gp (base g')) p = Some (PArray a')" using g'(6) p m a'(1) by blast
    then have "graph_property g' p = Inr (PArray a')"
      by (simp add: graph_property_def lookup_def)
    with a(1) a'(2,3) ds ln show "\<exists>a a'.
         graph_property g p = Inr (PArray a) \<and>
         graph_property g' p = Inr (PArray a') \<and>
         int (len a') = sum_list (filter_mask keep (diff_ranges indices)) \<and>
         (\<forall>j < length new.
            arr_slice a' (new ! j) = arr_slice a (filter_mask keep indices ! j))"
      by auto
  qed
  show ?thesis using sub idx' cr ne' names' arrays by blast
qed

lemma packed_graph_rows:
  "concat (map (\<lambda>a. snd (atleast_2d a)) test_geometry) = [[0, 1, 2], [10, 11, 12], [20, 21, 22], [30, 31, 32], [40, 41, 42], [50, 51, 52], [60, 61, 62], [70, 71, 72], [80, 81, 82], [90, 91, 92], [100, 101, 102], [110, 111, 112], [120, 121, 122], [130, 131, 132], [140, 141, 142], [150, 151, 152], [160, 161, 162], [170, 171, 172]]"
  by (simp add: test_geometry_def)

lemma prune_packed:
  "Graph_prune (base packed_graph, [True, True, True, True, True, False, False, False, False, False], [True, True, True, True]) =
     (base kept_graph)\<lparr>ep := [(''edge_geometry_indices'', PRanges [(0, 3)])],
        gp := [(''shape'', PNone), (''edge_geometry_type'', PStr ''graph''),
               (''edge_geometry_coordinates'', PArray (Arr2 3 [[0, 1, 2], [10, 11, 12], [20, 21, 22], [30, 31, 32], [40, 41, 42], [50, 51, 52], [60, 61, 62], [70, 71, 72], [80, 81, 82], [90, 91, 92], [100, 101, 102], [110, 111, 112], [120, 121, 122], [130, 131, 132], [140, 141, 142], [150, 151, 152], [160, 161, 162], [170, 171, 172]]))]\<rparr>"
  unfolding packed_graph_eq packed_graph_rows kept_graph_def
  by (simp add: Graph_prune_def visible_edges_def filter_mask_def prune_pyval_def Let_def)

lemma remap_first_edge:
  "remap_property 3 [(0, 3)] [(0, 3)] (PArray (Arr2 3 [[0, 1, 2], [10, 11, 12], [20, 21, 22], [30, 31, 32], [40, 41, 42], [50, 51, 52], [60, 61, 62], [70, 71, 72], [80, 81, 82], [90, 91, 92], [100, 101, 102], [110, 111, 112], [120, 121, 122], [130, 131, 132], [140, 141, 142], [150, 151, 152], [160, 161, 162], [170, 171, 172]])) =
     Inr (PArray (Arr2 3 [[0, 1, 2], [10, 11, 12], [20, 21, 22]]))"
  by (simp add: remap_property_def remap_items_def remap_array_ranges_def
      range_lengths_agree_def assign_slice_def py_slice_def slice_bound_def Let_def
      numeral_3_eq_3)

lemma resize_packed:
  "resize_edge_geometry stub_engine (Graph_of_base
     ((base kept_graph)\<lparr>ep := [(''edge_geometry_indices'', PRanges [(0, 3)])],
        gp := [(''shape'', PNone), (''edge_geometry_type'', PStr ''graph''),
               (''edge_geometry_coordinates'', PArray (Arr2 3 [[0, 1, 2], [10, 11, 12], [20, 21, 22], [30, 31, 32], [40, 41, 42], [50, 51, 52], [60, 61, 62], [70, 71, 72], [80, 81, 82], [90, 91, 92], [100, 101, 102], [110, 111, 112], [120, 121, 122], [130, 131, 132], [140, 141, 142], [150, 151, 152], [160, 161, 162], [170, 171, 172]]))]\<rparr>)) =
   Return () kept_graph"
  by (simp add: resize_edge_geometry_def has_edge_geometry_def
        edge_geometry_property_names_def edge_geometry_type_def graph_property_def lookup_def
        graph_properties_def startswith_def edge_geometry_property_name_def Let_def
        kept_graph_def Graph_of_base_def edge_geometry_indices_graph_def edge_property_def
        edge_geometry_indices_name_graph_def property_map_to_python_def as_ranges_def
        resize_indices_def diff_ranges_def compute_ranges_def cumsum_def
        set_edge_geometry_indices_graph_def set_edge_property_def set_property_map_def
        invalidate_caches_def reduce_edge_geometry_properties_def remap_first_edge
        set_graph_property_def)

lemma sub_graph_packed:
  "sub_graph stub_engine packed_graph
       (Some [True, True, True, True, True, False, False, False, False, False]) None False =
     Inr (Owned kept_graph)"
proof -
  have gv: "GraphView (base packed_graph)
       (Some [True, True, True, True, True, False, False, False, False, False]) None =
     Inr (base packed_graph, [True, True, True, True, True, False, False, False, False, False], [True, True, True, True])"
    by (simp add: GraphView_def packed_graph_eq)
  show ?thesis by (simp add: sub_graph_def gv prune_packed resize_packed)
qed

theorem sub_graph_compacts_geometry_witness:
  "edge_geometry_type packed_graph = Inr (PStr ''graph'') \<and>
   edge_geometry_indices_graph stub_engine packed_graph None =
     Inr (PRanges [(0, 3), (3, 7), (7, 12), (12, 18)]) \<and>
   n_edges packed_graph = 4 \<and> n_vertices packed_graph = 10 \<and>
   edge_geometry_property_names packed_graph = Inr [''edge_geometry_coordinates''] \<and>
   distinct (graph_properties packed_graph) \<and>
   list_all (valid_range 18) [(0, 3), (3, 7), (7, 12), (12, 18)] \<and>
   visible_edges (base packed_graph,
       [True, True, True, True, True, False, False, False, False, False],
       replicate (n_edges packed_graph) True) = [True, False, False, False] \<and>
   sub_graph stub_engine packed_graph
       (Some [True, True, True, True, True, False, False, False, False, False]) None False =
     Inr (Owned kept_graph) \<and>
   edge_geometry_indices_graph stub_engine kept_graph None = Inr (PRanges [(0, 3)]) \<and>
   graph_property kept_graph ''edge_geometry_coordinates'' =
     Inr (PArray (Arr2 3 [[0, 1, 2], [10, 11, 12], [20, 21, 22]])) \<and>
   arr_slice (Arr2 3 [[0, 1, 2], [10, 11, 12], [20, 21, 22], [30, 31, 32], [40, 41, 42], [50, 51, 52], [60, 61, 62], [70, 71, 72], [80, 81, 82], [90, 91, 92], [100, 101, 102], [110, 111, 112], [120, 121, 122], [130, 131, 132], [140, 141, 142], [150, 151, 152], [160, 161, 162], [170, 171, 172]]) (0, 3) = Arr2 3 [[0, 1, 2], [10, 11, 12], [20, 21, 22]]"
  using sub_graph_compacts_geometry [where g = packed_graph and E = stub_engine
      and V = "[True, True, True, True, True, False, False, False, False, False]"]
    sub_graph_packed
  unfolding packed_graph_eq packed_graph_rows
  by (simp add: edge_geometry_type_def graph_property_def lookup_def
      edge_geometry_indices_graph_def edge_property_def edge_geometry_indices_name_graph_def
      edge_geometry_property_name_def property_map_to_python_def n_edges_def n_vertices_def
      edge_geometry_property_names_def graph_properties_def startswith_def valid_range_def
      visible_edges_def kept_graph_def py_slice_def slice_bound_def Let_def)

lemma flat_radii_graph_eq:
  "flat_radii_graph =
     \<lparr>base = \<lparr>num_vertices = 10, edge_list = [(1, 3), (2, 5), (6, 7), (7, 9)],
              is_directed = False, vp = [],
              ep = [(''edge_geometry_indices'', PRanges [(0, 3), (3, 7), (7, 12), (12, 18)])],
              gp = [(''shape'', PNone), (''edge_geometry_type'', PStr ''graph''),
                    (''edge_geometry_radii'',
                     PArray (Arr1 [0, 1, 2, 3, 4, 5, 6, 7, 8, 9, 10, 11, 12, 13, 14, 15, 16, 17]))]\<rparr>,
      mesh_vertices = None, mesh_faces = None, faces_edge_ids = None\<rparr>"
  by (simp add: flat_radii_graph_def set_edge_geometry_def edge_geometry_type_def
      graph_property_def lookup_def test_graph_def Graph_of_base_def test_base_def
      set_edge_geometry_graph_def define_edge_property_def
      edge_properties_def add_edge_property_def property_map_from_python_def
      invalidate_caches_def define_graph_property_def graph_properties_def
      add_graph_property_def edge_geometry_property_name_def
      edge_geometry_indices_name_graph_def Let_def)

lemma prune_flat:
  "Graph_prune (base flat_radii_graph, [False, False, False, False, False, False, True, True, False, True], [True, True, True, True]) = base flat_radii_sub_graph"
  unfolding flat_radii_graph_eq flat_radii_sub_graph_def
  by (simp add: Graph_prune_def visible_edges_def filter_mask_def prune_pyval_def Let_def)

text \<open>
  C4, as stated, fails for a packed graph without \<open>coordinates\<close>: \<open>resize_edge_geometry\<close>
  returns at once when \<open>has_edge_geometry()\<close> (of \<open>'coordinates'\<close>) is false, so the radii
  array keeps its 18 samples and the two surviving edges keep the ranges \<open>(7, 12)\<close> and
  \<open>(12, 18)\<close>.
\<close>

theorem sub_graph_without_coordinates_keeps_packed_array:
  "edge_geometry_type flat_radii_graph = Inr (PStr ''graph'') \<and>
   sub_graph stub_engine flat_radii_graph
       (Some [False, False, False, False, False, False, True, True, False, True]) None False =
     Inr (Owned flat_radii_sub_graph) \<and>
   edge_geometry_indices_graph stub_engine flat_radii_sub_graph None =
     Inr (PRanges [(7, 12), (12, 18)]) \<and>
   graph_property flat_radii_sub_graph ''edge_geometry_radii'' =
     Inr (PArray (Arr1 [0, 1, 2, 3, 4, 5, 6, 7, 8, 9, 10, 11, 12, 13, 14, 15, 16, 17])) \<and>
   len (Arr1 [0, 1, 2, 3, 4, 5, 6, 7, 8, 9, 10, 11, 12, 13, 14, 15, 16, 17 :: int]) = 18 \<and>
   sum_list (diff_ranges [(7, 12), (12, 18)]) = 11"
proof -
  have gv: "GraphView (base flat_radii_graph)
       (Some [False, False, False, False, False, False, True, True, False, True]) None =
     Inr (base flat_radii_graph, [False, False, False, False, False, False, True, True, False, True], [True, True, True, True])"
    by (simp add: GraphView_def flat_radii_graph_eq)
  have rs: "resize_edge_geometry stub_engine (Graph_of_base (base flat_radii_sub_graph)) =
      Return () flat_radii_sub_graph"
    by (simp add: resize_edge_geometry_def has_edge_geometry_def
        edge_geometry_property_names_def edge_geometry_type_def graph_property_def lookup_def
        graph_properties_def startswith_def edge_geometry_property_name_def Let_def
        flat_radii_sub_graph_def Graph_of_base_def)
  have s: "sub_graph stub_engine flat_radii_graph
       (Some [False, False, False, False, False, False, True, True, False, True]) None False =
     Inr (Owned flat_radii_sub_graph)"
    by (simp add: sub_graph_def gv prune_flat rs)
  show ?thesis
    using s
    by (simp add: flat_radii_graph_eq edge_geometry_type_def graph_property_def lookup_def
        edge_geometry_indices_graph_def edge_property_def edge_geometry_indices_name_graph_def
        edge_geometry_property_name_def property_map_to_python_def flat_radii_sub_graph_def
        diff_ranges_def)
qed

end
